theory Spec2Isabelle
  imports Main "HOL-Library.Word"
begin

section \<open>Protocol data\<close>

text \<open>
  A GWBUF holds the raw wire packet in \<open>data\<close>: the 4-byte MySQL header (3-byte
  little-endian payload length, 1-byte sequence id) followed by the payload, whose first
  byte is the command. With it travel the routing hints attached to the packet and the
  buffer type flag \<open>GWBUF_TYPE_COLLECT_RESULT\<close>.
\<close>

datatype HINT =
    HINT_ROUTE_TO_NAMED_SERVER string
  | HINT_PARAMETER string string
  | HINT_OTHER

record GWBUF =
  data :: "8 word list"
  hint :: "HINT list"
  collect_result :: bool

text \<open>
  Modelled from the spec: the constants of the protocol headers, which are not among the
  sources. Spec sections 4.4 and 6: a packet has a 4-byte header and at most \<open>2^24 - 1\<close>
  payload bytes. The command bytes are those of the MySQL protocol; the two markers of the
  replication lag are distinct negative values.
\<close>

definition MYSQL_HEADER_LEN :: nat where
  "MYSQL_HEADER_LEN = 4"

definition GW_MYSQL_MAX_PACKET_LEN :: nat where
  "GW_MYSQL_MAX_PACKET_LEN = 2 ^ 24 - 1"

definition MXS_COM_QUERY :: "8 word" where
  "MXS_COM_QUERY = 0x03"

definition MXS_COM_STMT_PREPARE :: "8 word" where
  "MXS_COM_STMT_PREPARE = 0x16"

definition MXS_COM_STMT_EXECUTE :: "8 word" where
  "MXS_COM_STMT_EXECUTE = 0x17"

definition MXS_COM_STMT_FETCH :: "8 word" where
  "MXS_COM_STMT_FETCH = 0x1c"

definition MAX_RLAG_NOT_AVAILABLE :: int where
  "MAX_RLAG_NOT_AVAILABLE = - 1"

definition MAX_RLAG_UNDEFINED :: int where
  "MAX_RLAG_UNDEFINED = - 2"

definition gwbuf_length :: "GWBUF \<Rightarrow> nat" where
  "gwbuf_length buf = length (data buf)"

definition mxs_mysql_get_command :: "GWBUF \<Rightarrow> 8 word" where
  "mxs_mysql_get_command buf =
     (if MYSQL_HEADER_LEN < length (data buf) then data buf ! MYSQL_HEADER_LEN else 0)"

section \<open>Session commands\<close>

text \<open>
  Modelled from the spec: the SessionCommand class (session_command.hh is not among the
  sources). Spec section 3: a session command carries its position, the command byte and
  the raw packet; two session commands are textually equivalent when their packets are
  equal. The command byte is the first payload byte of the packet.
\<close>

record SessionCommand =
  m_buffer :: GWBUF
  m_pos :: "64 word"

definition new_SessionCommand :: "GWBUF \<Rightarrow> 64 word \<Rightarrow> SessionCommand" where
  "new_SessionCommand buffer ident = \<lparr>m_buffer = buffer, m_pos = ident\<rparr>"

definition get_command :: "SessionCommand \<Rightarrow> 8 word" where
  "get_command c = mxs_mysql_get_command (m_buffer c)"

definition get_position :: "SessionCommand \<Rightarrow> 64 word" where
  "get_position c = m_pos c"

definition equal_pointees :: "SessionCommand \<Rightarrow> SessionCommand \<Rightarrow> bool" where
  "equal_pointees a b = (data (m_buffer a) = data (m_buffer b))"

section \<open>Backends\<close>

datatype reply_state_t = REPLY_STATE_START | REPLY_STATE_DONE | REPLY_STATE_RSET_COLDEF
  | REPLY_STATE_RSET_ROWS

text \<open>
  Modelled from the spec: the Backend class (its header is not among the sources). Spec
  sections 3 and 4.1: a backend has a server handle (name, role, observed replication lag,
  whether a connection could be opened), an in-use flag, a closed flag, a reply state, a
  last-read timestamp and a queue of pending session commands.
\<close>

record Backend =
  name :: string
  in_use :: bool
  is_closed :: bool
  can_connect :: bool
  is_master :: bool
  is_slave :: bool
  is_relay :: bool
  rlag :: int
  last_read :: int
  is_waiting_result :: bool
  reply_state :: reply_state_t
  session_commands :: "SessionCommand list"

text \<open>
  Modelled from the spec: \<open>have_session_commands\<close> is true when the queue is non-empty,
  \<open>append_session_command\<close> appends to the queue, \<open>next_session_command\<close> is the head of
  the queue (section 4.1).
\<close>

definition have_session_commands :: "Backend \<Rightarrow> bool" where
  "have_session_commands b = (session_commands b \<noteq> [])"

definition append_session_command :: "Backend \<Rightarrow> SessionCommand \<Rightarrow> Backend" where
  "append_session_command b c = b\<lparr>session_commands := session_commands b @ [c]\<rparr>"

definition next_session_command :: "Backend \<Rightarrow> SessionCommand" where
  "next_session_command b = hd (session_commands b)"

text \<open>
  Modelled from the spec: \<open>connect\<close> on success enqueues every command of the given log
  for replay and marks the backend in use with reply state done (idle); \<open>close\<close> leaves
  the backend in the terminal closed state (section 4.1).
\<close>

definition backend_connect :: "Backend \<Rightarrow> SessionCommand list \<Rightarrow> Backend" where
  "backend_connect b sescmd =
     b\<lparr>in_use := True, is_closed := False, reply_state := REPLY_STATE_DONE,
       session_commands := session_commands b @ sescmd\<rparr>"

definition backend_close :: "Backend \<Rightarrow> Backend" where
  "backend_close b = b\<lparr>in_use := False, is_closed := True\<rparr>"

section \<open>Router session\<close>

datatype failure_mode = RW_FAIL_INSTANTLY | RW_FAIL_ON_WRITE | RW_ERROR_ON_WRITE

datatype load_data_state_t = LOAD_DATA_INACTIVE | LOAD_DATA_START | LOAD_DATA_ACTIVE
  | LOAD_DATA_END

datatype wait_gtid_state_t = EXPECTING_NOTHING | EXPECTING_WAIT_GTID_RESULT
  | EXPECTING_REAL_RESULT

datatype response_type = EXPECT_RESPONSE | NO_RESPONSE

datatype backend_type_t = BE_UNDEFINED | BE_MASTER | BE_JOINED | BE_SLAVE

datatype log_level = LOG_DEBUG | LOG_INFO | LOG_WARNING | LOG_ERROR

text \<open>
  Calls that leave the router (log lines, socket operations on a backend given by its
  index in the backend list, the error packet to the client, the statement archive) are
  recorded in a trace, newest last.
\<close>

datatype event =
    Log log_level string
  | BackendConnect nat
  | BackendWrite nat GWBUF response_type
  | BackendClose nat
  | IgnorablePing nat
  | ReadonlyError
  | StoreStmt GWBUF nat

text \<open>
  The route target is a bit set of target flags; the header with the bit values is not
  among the sources, so every flag is a field and \<open>TARGET_IS_x\<close> reads it.
\<close>

record route_target_t =
  TARGET_IS_MASTER :: bool
  TARGET_IS_SLAVE :: bool
  TARGET_IS_NAMED_SERVER :: bool
  TARGET_IS_ALL :: bool
  TARGET_IS_RLAG_MAX :: bool

record RouteInfo =
  info_target :: route_target_t
  info_command :: "8 word"
  info_type :: "32 word"
  info_stmt_id :: "32 word"

record Config =
  slave_selection_criteria :: nat
  max_sescmd_history :: nat
  disable_sescmd_history :: bool
  master_accept_reads :: bool
  master_reconnection :: bool
  master_failure_mode :: failure_mode
  strict_multi_stmt :: bool
  strict_sp_calls :: bool
  retry_failed_reads :: bool
  connection_keepalive :: int
  enable_causal_read :: bool

text \<open>
  Shared pointers to backends are indices into \<open>backends\<close>; an empty pointer is \<open>None\<close>.
  \<open>sescmd_responses\<close> is the ordered map from position to the stored reply, kept as an
  association list in key order. \<open>warn_history_exceeded\<close> is the function-level static of
  \<open>route_session_write\<close>: it belongs to the process, and is threaded through the session
  state here.
\<close>

record RWSplitSession =
  backends :: "Backend list"
  current_master :: "nat option"
  target_node :: "nat option"
  prev_target :: "nat option"
  large_query :: bool
  exec_map :: "32 word \<rightharpoonup> nat"
  sescmd_list :: "SessionCommand list"
  sescmd_responses :: "(64 word \<times> 8 word) list"
  sescmd_count :: "64 word"
  sent_sescmd :: "64 word"
  recv_sescmd :: "64 word"
  expected_responses :: int
  query_queue :: "GWBUF list"
  rses_config :: Config
  load_data_state :: load_data_state_t
  wait_gtid_state :: wait_gtid_state_t
  gtid_pos :: string
  have_tmp_tables :: bool
  temp_tables :: "string list"
  ps_manager :: "(64 word \<times> GWBUF) list"
  n_master :: nat
  n_slave :: nat
  n_queries :: nat
  warn_history_exceeded :: bool
  trace :: "event list"

text \<open>
  What the functions of this file take from code that is not among the sources: the outcome
  of socket operations, the transaction state of the client session, the classifier's
  predicates, the comparator table, and the session methods declared in the missing
  headers. Each is a parameter. So is the packet that \<open>add_prefix_wait_gtid\<close> returns
  (lines 834 to 875): it is formatted from constants and with helpers that are not among
  the sources.
\<close>

record Env =
  mxs_mysql_command_will_respond :: "8 word \<Rightarrow> bool"
  mxs_mysql_is_ps_command :: "8 word \<Rightarrow> bool"
  query_is_prepare :: "32 word \<Rightarrow> bool"
  replace_binary_ps_id :: "GWBUF \<Rightarrow> 32 word \<Rightarrow> GWBUF"
  execute_session_command :: "nat \<Rightarrow> Backend \<Rightarrow> bool \<times> Backend"
  connect_result :: "nat \<Rightarrow> bool"
  write_result :: "nat \<Rightarrow> bool"
  send_readonly_error :: bool
  session_store_stmt :: bool
  session_trx_is_read_only :: bool
  session_trx_is_ending :: bool
  session_trx_is_active :: bool
  locked_to_master :: "RWSplitSession \<Rightarrow> bool"
  get_max_replication_lag :: "RWSplitSession \<Rightarrow> int"
  get_root_master :: "Backend list \<Rightarrow> nat option"
  get_slave_counts :: "Backend list \<Rightarrow> nat option \<Rightarrow> int \<times> int"
  max_slave_count :: int
  criteria_cmpfun :: "nat \<Rightarrow> Backend \<Rightarrow> Backend \<Rightarrow> int"
  hkheartbeat :: int
  router_connection_keepalive :: int
  router_enable_causal_read :: bool
  add_prefix_wait_gtid :: "Backend \<Rightarrow> string \<Rightarrow> GWBUF \<Rightarrow> GWBUF"
  hint_strtol :: "string \<Rightarrow> int"
  errno_is_zero :: bool
  handle_target_is_all ::
    "route_target_t \<Rightarrow> GWBUF \<Rightarrow> 8 word \<Rightarrow> 32 word \<Rightarrow> RWSplitSession \<Rightarrow> bool \<times> RWSplitSession"

definition log_msg :: "log_level \<Rightarrow> string \<Rightarrow> RWSplitSession \<Rightarrow> RWSplitSession" where
  "log_msg lvl msg s = s\<lparr>trace := trace s @ [Log lvl msg]\<rparr>"

definition emit :: "event \<Rightarrow> RWSplitSession \<Rightarrow> RWSplitSession" where
  "emit e s = s\<lparr>trace := trace s @ [e]\<rparr>"

section \<open>purge_history\<close>

text \<open>
  \<open>std::find_if\<close> over a list: the index of the first element satisfying the predicate,
  or the length of the list (the end iterator) when there is none.
\<close>

fun find_if :: "('a \<Rightarrow> bool) \<Rightarrow> 'a list \<Rightarrow> nat" where
  "find_if P [] = 0"
| "find_if P (x # xs) = (if P x then 0 else Suc (find_if P xs))"

definition erase_at :: "nat \<Rightarrow> 'a list \<Rightarrow> 'a list" where
  "erase_at i xs = take i xs @ drop (Suc i) xs"

definition map_erase :: "64 word \<Rightarrow> (64 word \<times> 8 word) list \<Rightarrow> (64 word \<times> 8 word) list" where
  "map_erase k m = filter (\<lambda>kv. fst kv \<noteq> k) m"

definition purge_history :: "RWSplitSession \<Rightarrow> SessionCommand \<Rightarrow> RWSplitSession" where
  "purge_history s sescmd =
     (if get_command sescmd \<noteq> MXS_COM_STMT_PREPARE then
        (let first = find_if (equal_pointees sescmd) (sescmd_list s) in
         if first \<noteq> length (sescmd_list s) then
           (let second = Suc first
                  + find_if (equal_pointees sescmd) (drop (Suc first) (sescmd_list s)) in
            if second \<noteq> length (sescmd_list s) then
              (let old_cmd = sescmd_list s ! second in
               s\<lparr>sescmd_responses := map_erase (get_position old_cmd) (sescmd_responses s),
                 sescmd_list := erase_at second (sescmd_list s)\<rparr>)
            else s)
         else s)
      else s)"

section \<open>route_session_write\<close>

text \<open>
  The loop over the backends (lines 333 to 366). It carries the lowest pending position,
  the number of backends that executed the command, the expected-response counter and
  the trace, and returns the backends as the loop leaves them. \<open>i\<close> is the index of the
  backend at the head of the list.
\<close>

fun session_write_loop ::
  "Env \<Rightarrow> SessionCommand \<Rightarrow> bool \<Rightarrow> nat \<Rightarrow> Backend list
     \<Rightarrow> 64 word \<times> nat \<times> int \<times> event list
     \<Rightarrow> Backend list \<times> 64 word \<times> nat \<times> int \<times> event list" where
  "session_write_loop env sescmd expecting_response i [] acc = ([], acc)"
| "session_write_loop env sescmd expecting_response i (backend # rest)
       (lowest_pos, nsucc, expected, tr) =
     (if in_use backend then
        (let b1 = append_session_command backend sescmd;
             current_pos = get_position (next_session_command b1);
             lowest_pos1 = (if current_pos < lowest_pos then current_pos else lowest_pos);
             res = execute_session_command env i b1;
             acc1 = (if fst res
                     then (lowest_pos1, nsucc + 1,
                           (if expecting_response then expected + 1 else expected),
                           tr @ [Log LOG_INFO ''Route query to''])
                     else (lowest_pos1, nsucc, expected,
                           tr @ [Log LOG_ERROR ''Failed to execute session command'']));
             out = session_write_loop env sescmd expecting_response (Suc i) rest acc1
         in (snd res # fst out, snd out))
      else
        (let out = session_write_loop env sescmd expecting_response (Suc i) rest
                     (lowest_pos, nsucc, expected, tr)
         in (backend # fst out, snd out)))"

text \<open>
  \<open>lower_bound\<close> on the ordered response map followed by \<open>erase(begin, it)\<close>: the entries
  from the first key not below \<open>lowest_pos\<close> on; nothing is erased when there is no such key.
\<close>

definition lower_bound :: "64 word \<Rightarrow> (64 word \<times> 8 word) list \<Rightarrow> (64 word \<times> 8 word) list" where
  "lower_bound lowest_pos m = dropWhile (\<lambda>kv. fst kv < lowest_pos) m"

definition prune_responses :: "64 word \<Rightarrow> RWSplitSession \<Rightarrow> RWSplitSession" where
  "prune_responses lowest_pos s =
     (let it = lower_bound lowest_pos (sescmd_responses s) in
      if it \<noteq> [] then s\<lparr>sescmd_responses := it\<rparr> else s)"

text \<open>Lines 368 to 387: the history limit.\<close>

definition history_limit :: "RWSplitSession \<Rightarrow> RWSplitSession" where
  "history_limit s =
     (if 0 < max_sescmd_history (rses_config s)
         \<and> max_sescmd_history (rses_config s) \<le> length (sescmd_list s) then
        (let s1 = (if warn_history_exceeded s
                   then (log_msg LOG_WARNING
                           ''Router session exceeded session command history limit.'' s)
                        \<lparr>warn_history_exceeded := False\<rparr>
                   else s)
         in s1\<lparr>rses_config := (rses_config s1)
                   \<lparr>disable_sescmd_history := True, max_sescmd_history := 0\<rparr>,
               sescmd_list := []\<rparr>)
      else s)"

text \<open>Lines 389 to 403: prune the stored responses, or purge and append to the history.\<close>

definition update_history :: "64 word \<Rightarrow> SessionCommand \<Rightarrow> RWSplitSession \<Rightarrow> RWSplitSession" where
  "update_history lowest_pos sescmd s =
     (if disable_sescmd_history (rses_config s)
      then prune_responses lowest_pos s
      else (let s' = purge_history s sescmd
            in s'\<lparr>sescmd_list := sescmd_list s' @ [sescmd]\<rparr>))"

text \<open>Lines 405 to 415.\<close>

definition mark_sent :: "nat \<Rightarrow> 64 word \<Rightarrow> bool \<Rightarrow> RWSplitSession \<Rightarrow> RWSplitSession" where
  "mark_sent nsucc ident expecting_response s =
     (if nsucc \<noteq> 0
      then (let s' = s\<lparr>sent_sescmd := ident\<rparr>
            in if \<not> expecting_response
               then s'\<lparr>recv_sescmd := recv_sescmd s' + 1\<rparr> else s')
      else s)"

text \<open>
  The session command shares the buffer with the caller, so it sees the type flag that
  is set on the buffer of a prepare (lines 324 to 329).
\<close>

definition created_sescmd :: "Env \<Rightarrow> GWBUF \<Rightarrow> 32 word \<Rightarrow> RWSplitSession \<Rightarrow> SessionCommand" where
  "created_sescmd env querybuf qtype s =
     new_SessionCommand
       (if query_is_prepare env qtype then querybuf\<lparr>collect_result := True\<rparr> else querybuf)
       (sescmd_count s)"

text \<open>Lines 324 to 329: a prepare is stored with its position.\<close>

definition store_prepare :: "Env \<Rightarrow> 32 word \<Rightarrow> SessionCommand \<Rightarrow> RWSplitSession \<Rightarrow> RWSplitSession" where
  "store_prepare env qtype sescmd s =
     (if query_is_prepare env qtype
      then s\<lparr>ps_manager := ps_manager s @ [(get_position sescmd, m_buffer sescmd)]\<rparr>
      else s)"

definition route_session_write ::
  "Env \<Rightarrow> GWBUF \<Rightarrow> 8 word \<Rightarrow> 32 word \<Rightarrow> RWSplitSession \<Rightarrow> bool \<times> RWSplitSession" where
  "route_session_write env querybuf command qtype s =
     (let ident = sescmd_count s;
          sescmd = created_sescmd env querybuf qtype s;
          s1 = s\<lparr>sescmd_count := sescmd_count s + 1\<rparr>;
          expecting_response = mxs_mysql_command_will_respond env command;
          s2 = store_prepare env qtype sescmd s1;
          s3 = log_msg LOG_INFO ''Session write, routing to all servers.'' s2;
          out = session_write_loop env sescmd expecting_response 0 (backends s3)
                  (ident, 0, expected_responses s3, trace s3);
          lowest_pos = fst (snd out);
          nsucc = fst (snd (snd out));
          s4 = s3\<lparr>backends := fst out,
                  expected_responses := fst (snd (snd (snd out))),
                  trace := snd (snd (snd (snd out)))\<rparr>;
          s5 = history_limit s4;
          s6 = update_history lowest_pos sescmd s5;
          s7 = mark_sent nsucc ident expecting_response s6
      in (nsucc \<noteq> 0, s7))"

section \<open>Choosing a backend\<close>

definition compare_backends ::
  "Env \<Rightarrow> Backend list \<Rightarrow> nat option \<Rightarrow> nat option \<Rightarrow> nat \<Rightarrow> nat option" where
  "compare_backends env bs a b sc =
     (case a of
        None \<Rightarrow> b
      | Some ia \<Rightarrow>
          (case b of
             None \<Rightarrow> a
           | Some ib \<Rightarrow> if criteria_cmpfun env sc (bs ! ia) (bs ! ib) \<le> 0 then a else b))"

definition rpl_lag_is_ok :: "Backend \<Rightarrow> int \<Rightarrow> bool" where
  "rpl_lag_is_ok backend max_rlag =
     (max_rlag = MAX_RLAG_UNDEFINED
      \<or> (rlag backend \<noteq> MAX_RLAG_NOT_AVAILABLE \<and> rlag backend \<le> max_rlag))"

text \<open>\<open>strcasecmp\<close> and \<open>strncasecmp\<close> of the C library, in the C locale, as equality tests.\<close>

definition c_tolower :: "char \<Rightarrow> char" where
  "c_tolower c =
     (let n = (of_char c :: nat) in if 65 \<le> n \<and> n \<le> 90 then char_of (n + 32) else c)"

definition strcasecmp_eq :: "string \<Rightarrow> string \<Rightarrow> bool" where
  "strcasecmp_eq a b = (map c_tolower a = map c_tolower b)"

definition strncasecmp_eq :: "string \<Rightarrow> string \<Rightarrow> nat \<Rightarrow> bool" where
  "strncasecmp_eq a b n = (map c_tolower (take n a) = map c_tolower (take n b))"

fun hinted_loop :: "string \<Rightarrow> nat \<Rightarrow> Backend list \<Rightarrow> nat option" where
  "hinted_loop nm i [] = None"
| "hinted_loop nm i (backend # rest) =
     (if in_use backend \<and> strcasecmp_eq nm (name backend)
         \<and> (is_slave backend \<or> is_relay backend \<or> is_master backend)
      then Some i
      else hinted_loop nm (Suc i) rest)"

definition get_hinted_backend :: "string \<Rightarrow> RWSplitSession \<Rightarrow> nat option" where
  "get_hinted_backend nm s = hinted_loop nm 0 (backends s)"

text \<open>
  The loop of \<open>get_slave_backend\<close> over the backend indices, with the candidate \<open>rval\<close>.
\<close>

fun slave_loop ::
  "Env \<Rightarrow> RWSplitSession \<Rightarrow> int \<Rightarrow> int \<times> int \<Rightarrow> nat list \<Rightarrow> nat option \<Rightarrow> nat option" where
  "slave_loop env s max_rlag counts [] rval = rval"
| "slave_loop env s max_rlag counts (i # rest) rval =
     (let backend = backends s ! i in
      slave_loop env s max_rlag counts rest
        (if (is_master backend \<or> is_slave backend) \<and> rpl_lag_is_ok backend max_rlag then
           (case rval of
              None \<Rightarrow>
                if (is_master backend \<and> Some i = current_master s) \<or> is_slave backend
                then Some i else None
            | Some r \<Rightarrow>
                if in_use backend \<or> snd counts < max_slave_count env then
                  (if \<not> master_accept_reads (rses_config s) \<and> is_master (backends s ! r)
                   then Some i
                   else compare_backends env (backends s) rval (Some i)
                          (slave_selection_criteria (rses_config s)))
                else rval)
         else rval))"

definition get_slave_backend :: "Env \<Rightarrow> int \<Rightarrow> RWSplitSession \<Rightarrow> nat option" where
  "get_slave_backend env max_rlag s =
     slave_loop env s max_rlag (get_slave_counts env (backends s) (current_master s))
       [0 ..< length (backends s)] None"

definition get_master_backend :: "Env \<Rightarrow> RWSplitSession \<Rightarrow> nat option \<times> RWSplitSession" where
  "get_master_backend env s =
     (case get_root_master env (backends s) of
        None \<Rightarrow> (None, s)
      | Some m \<Rightarrow>
          (let master = backends s ! m in
           if in_use master \<or> can_connect master then
             (if is_master master then (Some m, s)
              else (None, log_msg LOG_ERROR
                      ''Server does not have the master state and cannot be chosen as the master.'' s))
           else (None, log_msg LOG_ERROR
                   ''Server is not in use and cannot be chosen as the master.'' s)))"

definition get_target_backend ::
  "Env \<Rightarrow> backend_type_t \<Rightarrow> string option \<Rightarrow> int \<Rightarrow> RWSplitSession
     \<Rightarrow> nat option \<times> RWSplitSession" where
  "get_target_backend env btype nm max_rlag s =
     (if target_node s \<noteq> None \<and> session_trx_is_read_only env then
        (target_node s, log_msg LOG_DEBUG ''In READ ONLY transaction, using server'' s)
      else
        (case nm of
           Some n \<Rightarrow> (get_hinted_backend n s, s)
         | None \<Rightarrow>
             if btype = BE_SLAVE then (get_slave_backend env max_rlag s, s)
             else if btype = BE_MASTER then get_master_backend env s
             else (None, s)))"

section \<open>Hinted, slave and master targets\<close>

text \<open>
  The walk over the hint chain of \<open>handle_hinted_target\<close>: the last named server, the last
  accepted replication-lag limit, and the log lines.
\<close>

fun hint_loop ::
  "Env \<Rightarrow> HINT list \<Rightarrow> string option \<times> int \<times> event list
     \<Rightarrow> string option \<times> int \<times> event list" where
  "hint_loop env [] acc = acc"
| "hint_loop env (HINT_ROUTE_TO_NAMED_SERVER d # rest) (named_server, rlag_max, tr) =
     hint_loop env rest (Some d, rlag_max, tr @ [Log LOG_INFO ''Hint: route to server''])"
| "hint_loop env (HINT_PARAMETER d v # rest) (named_server, rlag_max, tr) =
     (if strncasecmp_eq d ''max_slave_replication_lag'' (length ''max_slave_replication_lag'')
      then
        (let val = hint_strtol env v in
         if val \<noteq> 0 \<or> errno_is_zero env
         then hint_loop env rest
                (named_server, val, tr @ [Log LOG_INFO ''Hint: max_slave_replication_lag''])
         else hint_loop env rest (named_server, rlag_max, tr))
      else hint_loop env rest (named_server, rlag_max, tr))"
| "hint_loop env (HINT_OTHER # rest) acc = hint_loop env rest acc"

definition handle_hinted_target ::
  "Env \<Rightarrow> GWBUF \<Rightarrow> route_target_t \<Rightarrow> RWSplitSession \<Rightarrow> nat option \<times> RWSplitSession" where
  "handle_hinted_target env querybuf route_target s =
     (let hl = hint_loop env (hint querybuf) (None, MAX_RLAG_UNDEFINED, trace s);
          named_server = fst hl;
          s1 = s\<lparr>trace := snd (snd hl)\<rparr>;
          rlag_max = (if fst (snd hl) = MAX_RLAG_UNDEFINED
                      then get_max_replication_lag env s1 else fst (snd hl));
          btype = (if TARGET_IS_SLAVE route_target then BE_SLAVE else BE_MASTER);
          res = get_target_backend env btype named_server rlag_max s1
      in if fst res = None then
           (if TARGET_IS_NAMED_SERVER route_target then
              (None, log_msg LOG_INFO
                 ''Was supposed to route to named server but could not find the server in a suitable state.''
                 (snd res))
            else if TARGET_IS_RLAG_MAX route_target then
              (None, log_msg LOG_INFO
                 ''Was supposed to route to server with limited replication lag but could not find such a slave.''
                 (snd res))
            else res)
         else res)"

definition handle_slave_is_target ::
  "Env \<Rightarrow> 8 word \<Rightarrow> 32 word \<Rightarrow> RWSplitSession \<Rightarrow> nat option \<times> RWSplitSession" where
  "handle_slave_is_target env cmd stmt_id s =
     (let rlag_max = get_max_replication_lag env s;
          r1 = (if cmd = MXS_COM_STMT_FETCH then
                  (case exec_map s stmt_id of
                     Some t \<Rightarrow> (Some t, log_msg LOG_INFO ''COM_STMT_FETCH on'' s)
                   | None \<Rightarrow>
                       (None, log_msg LOG_WARNING
                          ''Unknown statement ID used in COM_STMT_FETCH'' s))
                else (None, s));
          r2 = (if fst r1 = None
                then get_target_backend env BE_SLAVE None rlag_max (snd r1) else r1)
      in if fst r2 \<noteq> None
         then (fst r2, (snd r2)\<lparr>n_slave := n_slave (snd r2) + 1\<rparr>)
         else (None, log_msg LOG_INFO
                 ''Was supposed to route to slave but finding suitable one failed.'' (snd r2)))"

definition log_master_routing_failure ::
  "bool \<Rightarrow> nat option \<Rightarrow> nat option \<Rightarrow> RWSplitSession \<Rightarrow> RWSplitSession" where
  "log_master_routing_failure found old_master curr_master s =
     (let old_in_use = (case old_master of
                          None \<Rightarrow> False | Some m \<Rightarrow> in_use (backends s ! m));
          errmsg =
            (if \<not> found then ''Could not find a valid master connection''
             else if old_master \<noteq> None \<and> curr_master \<noteq> None \<and> old_in_use
               then ''Master server changed''
             else if old_master \<noteq> None \<and> old_in_use
               then ''The connection to master server is not available''
             else if master_failure_mode (rses_config s) \<noteq> RW_FAIL_INSTANTLY
               then ''Session is in read-only mode because it was created when no master was available''
             else ''Was supposed to route to master but the master connection is closed or not in a suitable state'')
      in log_msg LOG_WARNING
           (''Write query received. '' @ errmsg @ ''. Closing client connection.'') s)"

definition should_replace_master :: "Env \<Rightarrow> nat option \<Rightarrow> RWSplitSession \<Rightarrow> bool" where
  "should_replace_master env target s =
     (master_reconnection (rses_config s)
      \<and> target \<noteq> None \<and> target \<noteq> current_master s
      \<and> \<not> session_trx_is_active env
      \<and> \<not> locked_to_master env s)"

definition replace_master :: "nat option \<Rightarrow> RWSplitSession \<Rightarrow> RWSplitSession" where
  "replace_master target s =
     s\<lparr>current_master := target, have_tmp_tables := False, temp_tables := []\<rparr>"

definition close_current_master :: "RWSplitSession \<Rightarrow> RWSplitSession" where
  "close_current_master s =
     (case current_master s of
        None \<Rightarrow> s
      | Some m \<Rightarrow>
          if in_use (backends s ! m)
          then (emit (BackendClose m) s)
                 \<lparr>backends := (backends s)[m := backend_close (backends s ! m)]\<rparr>
          else s)"

text \<open>The result is the success flag, the backend stored through \<open>dest\<close>, and the session.\<close>

definition handle_master_is_target ::
  "Env \<Rightarrow> RWSplitSession \<Rightarrow> bool \<times> nat option \<times> RWSplitSession" where
  "handle_master_is_target env s =
     (let res = get_target_backend env BE_MASTER None MAX_RLAG_UNDEFINED s;
          target = fst res;
          s1 = snd res;
          s2 = (if should_replace_master env target s1
                then replace_master target
                       (log_msg LOG_INFO ''Replacing old master with new master'' s1)
                else s1)
      in if target \<noteq> None \<and> target = current_master s2 then
           (True, target, s2\<lparr>n_master := n_master s2 + 1\<rparr>)
         else if master_failure_mode (rses_config s2) = RW_ERROR_ON_WRITE then
           (send_readonly_error env, target, close_current_master (emit ReadonlyError s2))
         else
           (False, target, log_master_routing_failure True (current_master s2) target s2))"

section \<open>Writing to the target\<close>

definition is_large_query :: "GWBUF \<Rightarrow> bool" where
  "is_large_query buf = (gwbuf_length buf = MYSQL_HEADER_LEN + GW_MYSQL_MAX_PACKET_LEN)"

definition expect_reply :: "nat \<Rightarrow> RWSplitSession \<Rightarrow> RWSplitSession" where
  "expect_reply target s =
     (let s1 = s\<lparr>backends := (backends s)
                   [target := (backends s ! target)\<lparr>reply_state := REPLY_STATE_START\<rparr>],
                 expected_responses := expected_responses s + 1\<rparr>
      in if load_data_state s1 = LOAD_DATA_START
           then s1\<lparr>load_data_state := LOAD_DATA_ACTIVE\<rparr>
         else if load_data_state s1 = LOAD_DATA_END
           then s1\<lparr>load_data_state := LOAD_DATA_INACTIVE\<rparr>
         else s1)"

text \<open>Lines 888 to 893: inside a read-only transaction the first target becomes the forced node.\<close>

definition pin_target_node :: "Env \<Rightarrow> nat \<Rightarrow> RWSplitSession \<Rightarrow> RWSplitSession" where
  "pin_target_node env target s =
     (if target_node s = None \<and> session_trx_is_read_only env
      then log_msg LOG_DEBUG
             ''Setting forced_node SLAVE within an opened READ ONLY transaction''
             (s\<lparr>target_node := Some target\<rparr>)
      else s)"

text \<open>Lines 921 to 924.\<close>

definition store_statement :: "Env \<Rightarrow> GWBUF \<Rightarrow> nat \<Rightarrow> bool \<Rightarrow> RWSplitSession \<Rightarrow> RWSplitSession" where
  "store_statement env querybuf target store s =
     (if store
      then (let s' = emit (StoreStmt querybuf target) s
            in if \<not> session_store_stmt env
               then log_msg LOG_ERROR
                      ''Failed to store current statement, it will not be retried if it fails.'' s'
               else s')
      else s)"

text \<open>Lines 950 to 959.\<close>

definition remember_target :: "bool \<Rightarrow> nat \<Rightarrow> RWSplitSession \<Rightarrow> RWSplitSession" where
  "remember_target large target s =
     (if large
      then s\<lparr>large_query := True, prev_target := Some target\<rparr>
      else s\<lparr>large_query := False, prev_target := None\<rparr>)"

text \<open>Lines 964 to 970: the forced node is dropped when the read-only transaction ends.\<close>

definition unpin_target_node :: "Env \<Rightarrow> RWSplitSession \<Rightarrow> RWSplitSession" where
  "unpin_target_node env s =
     (if target_node s \<noteq> None \<and> session_trx_is_read_only env \<and> session_trx_is_ending env
      then log_msg LOG_DEBUG
             ''An opened READ ONLY transaction ends: forced_node is set to NULL''
             (s\<lparr>target_node := None\<rparr>)
      else s)"

text \<open>Lines 926 to 970: what follows a successful write.\<close>

definition written ::
  "Env \<Rightarrow> GWBUF \<Rightarrow> nat \<Rightarrow> bool \<Rightarrow> response_type \<Rightarrow> RWSplitSession \<Rightarrow> RWSplitSession" where
  "written env querybuf target store response s =
     (let large = is_large_query querybuf;
          s5 = store_statement env querybuf target store s;
          s6 = s5\<lparr>n_queries := n_queries s5 + 1\<rparr>;
          s7 = (if \<not> large \<and> response = EXPECT_RESPONSE then expect_reply target s6 else s6);
          s8 = remember_target large target s7
      in unpin_target_node env s8)"

definition handle_got_target ::
  "Env \<Rightarrow> GWBUF \<Rightarrow> nat \<Rightarrow> bool \<Rightarrow> RWSplitSession \<Rightarrow> bool \<times> RWSplitSession" where
  "handle_got_target env querybuf target store s =
     (let s1 = pin_target_node env target s;
          s2 = (log_msg LOG_INFO ''Route query to'' s1)\<lparr>wait_gtid_state := EXPECTING_NOTHING\<rparr>;
          cmd = mxs_mysql_get_command querybuf;
          causal = (cmd = MXS_COM_QUERY \<and> router_enable_causal_read env \<and> gtid_pos s2 \<noteq> []);
          send_buf = (if causal
                      then add_prefix_wait_gtid env (backends s2 ! target) (gtid_pos s2) querybuf
                      else querybuf);
          s3 = (if causal then s2\<lparr>wait_gtid_state := EXPECTING_WAIT_GTID_RESULT\<rparr> else s2);
          response = (if load_data_state s3 \<noteq> LOAD_DATA_ACTIVE
                         \<and> mxs_mysql_command_will_respond env cmd
                      then EXPECT_RESPONSE else NO_RESPONSE);
          s4 = emit (BackendWrite target send_buf response) s3
      in if write_result env target
         then (True, written env querybuf target store response s4)
         else (False, log_msg LOG_ERROR ''Routing query failed.'' s4))"

section \<open>route_single_stmt\<close>

fun keepalive_loop :: "int \<Rightarrow> int \<Rightarrow> nat option \<Rightarrow> nat \<Rightarrow> Backend list \<Rightarrow> event list" where
  "keepalive_loop hb keepalive target i [] = []"
| "keepalive_loop hb keepalive target i (backend # rest) =
     (if in_use backend \<and> Some i \<noteq> target \<and> \<not> is_waiting_result backend
         \<and> keepalive < hb - last_read backend
      then [Log LOG_INFO ''Pinging idle server'', IgnorablePing i]
      else [])
     @ keepalive_loop hb keepalive target (Suc i) rest"

definition handle_connection_keepalive ::
  "Env \<Rightarrow> nat option \<Rightarrow> RWSplitSession \<Rightarrow> RWSplitSession" where
  "handle_connection_keepalive env target s =
     (let keepalive = connection_keepalive (rses_config s) * 10
      in s\<lparr>trace := trace s @ keepalive_loop (hkheartbeat env) keepalive target 0 (backends s)\<rparr>)"

definition prepare_target ::
  "Env \<Rightarrow> nat \<Rightarrow> route_target_t \<Rightarrow> RWSplitSession \<Rightarrow> bool \<times> RWSplitSession" where
  "prepare_target env target route_target s =
     (let t = backends s ! target in
      if \<not> in_use t \<and> can_connect t then
        (if TARGET_IS_SLAVE route_target
            \<or> (master_reconnection (rses_config s) \<and> TARGET_IS_MASTER route_target) then
           (if \<not> disable_sescmd_history (rses_config s) \<or> recv_sescmd s = 0 then
              (let s1 = emit (BackendConnect target) s in
               if connect_result env target
               then (True, s1\<lparr>backends := (backends s1)
                                 [target := backend_connect t (sescmd_list s1)]\<rparr>)
               else (False, s1))
            else
              (True, log_msg LOG_ERROR
                 ''Cannot reconnect to server, session command history is disabled.'' s))
         else if TARGET_IS_MASTER route_target then
           (False, log_msg LOG_ERROR
              ''The connection to the master was lost and the connection could be recreated but master_reconnection is not enabled.'' s)
         else (True, s))
      else (True, s))"

text \<open>
  Lines 165 to 206 of \<open>route_single_stmt\<close>: the success flag, the target, whether the
  statement is to be stored for a retry, and the session.
\<close>

definition resolve_target ::
  "Env \<Rightarrow> GWBUF \<Rightarrow> RouteInfo \<Rightarrow> RWSplitSession
     \<Rightarrow> bool \<times> nat option \<times> bool \<times> RWSplitSession" where
  "resolve_target env querybuf info s =
     (let route_target = info_target info in
      if large_query s then (True, prev_target s, False, s)
      else if TARGET_IS_NAMED_SERVER route_target \<or> TARGET_IS_RLAG_MAX route_target then
        (let r = handle_hinted_target env querybuf route_target s
         in (fst r \<noteq> None, fst r, False, snd r))
      else if TARGET_IS_SLAVE route_target then
        (let r = handle_slave_is_target env (info_command info) (info_stmt_id info) s
         in (fst r \<noteq> None, fst r,
             fst r \<noteq> None \<and> retry_failed_reads (rses_config (snd r)), snd r))
      else if TARGET_IS_MASTER route_target then
        (let r = handle_master_is_target env s;
             s1 = snd (snd r);
             s2 = (if \<not> strict_multi_stmt (rses_config s1)
                      \<and> \<not> strict_sp_calls (rses_config s1)
                      \<and> target_node s1 = current_master s1
                   then s1\<lparr>target_node := None\<rparr> else s1)
         in (fst r, fst (snd r), False, s2))
      else (False, None, False, s))"

text \<open>Lines 208 to 237: what is done with a resolved target.\<close>

definition dispatch_target ::
  "Env \<Rightarrow> GWBUF \<Rightarrow> RouteInfo \<Rightarrow> bool \<Rightarrow> nat \<Rightarrow> bool \<Rightarrow> RWSplitSession
     \<Rightarrow> bool \<times> RWSplitSession" where
  "dispatch_target env querybuf info not_locked_to_master target store_stmt s =
     (let p = prepare_target env target (info_target info) s in
      if \<not> fst p then (False, snd p)
      else if have_session_commands (backends (snd p) ! target) then
        (True, (snd p)\<lparr>expected_responses := expected_responses (snd p) + 1,
                      query_queue := query_queue (snd p) @ [querybuf]\<rparr>)
      else
        (let g = handle_got_target env querybuf target store_stmt (snd p) in
         if fst g \<and> info_command info = MXS_COM_STMT_EXECUTE \<and> not_locked_to_master
         then (True, log_msg LOG_INFO ''COM_STMT_EXECUTE on''
                       ((snd g)\<lparr>exec_map := (exec_map (snd g))(info_stmt_id info \<mapsto> target)\<rparr>))
         else g))"

text \<open>
  Lines 149 to 154: the packet with the client's statement id replaced by the internal one.
\<close>

definition ps_id_replaced :: "Env \<Rightarrow> GWBUF \<Rightarrow> RouteInfo \<Rightarrow> RWSplitSession \<Rightarrow> GWBUF" where
  "ps_id_replaced env querybuf info s =
     (if \<not> locked_to_master env s \<and> mxs_mysql_is_ps_command env (info_command info)
      then replace_binary_ps_id env querybuf (info_stmt_id info)
      else querybuf)"

definition route_single_stmt ::
  "Env \<Rightarrow> GWBUF \<Rightarrow> RouteInfo \<Rightarrow> RWSplitSession \<Rightarrow> bool \<times> RWSplitSession" where
  "route_single_stmt env querybuf0 info s =
     (let route_target = info_target info;
          not_locked_to_master = (\<not> locked_to_master env s);
          querybuf = ps_id_replaced env querybuf0 info s;
          r = (if TARGET_IS_ALL route_target then
                 (let a = handle_target_is_all env route_target querybuf (info_command info)
                            (info_type info) s
                  in (fst a, None, snd a))
               else
                 (let rt = resolve_target env querybuf info s;
                      succp = fst rt;
                      target = fst (snd rt);
                      store_stmt = fst (snd (snd rt));
                      s1 = snd (snd (snd rt))
                  in (case target of
                        Some t \<Rightarrow>
                          if succp
                          then (let d = dispatch_target env querybuf info not_locked_to_master
                                          t store_stmt s1
                                in (fst d, target, snd d))
                          else (succp, target, s1)
                      | None \<Rightarrow> (succp, target, s1))))
      in if fst r \<and> router_connection_keepalive env \<noteq> 0
            \<and> (TARGET_IS_SLAVE route_target \<or> TARGET_IS_MASTER route_target)
         then (fst r, handle_connection_keepalive env (fst (snd r)) (snd (snd r)))
         else (fst r, snd (snd r)))"

section \<open>Auxiliary definitions\<close>

text \<open>The effect of \<open>purge_history\<close> on the history list.\<close>

definition purge_list :: "SessionCommand \<Rightarrow> SessionCommand list \<Rightarrow> SessionCommand list" where
  "purge_list c xs =
     (if get_command c \<noteq> MXS_COM_STMT_PREPARE then
        (let first = find_if (equal_pointees c) xs in
         if first \<noteq> length xs then
           (let second = Suc first + find_if (equal_pointees c) (drop (Suc first) xs) in
            if second \<noteq> length xs then erase_at second xs else xs)
         else xs)
      else xs)"

text \<open>The test of line 368.\<close>

definition limit_exceeded :: "RWSplitSession \<Rightarrow> bool" where
  "limit_exceeded s =
     (0 < max_sescmd_history (rses_config s)
      \<and> max_sescmd_history (rses_config s) \<le> length (sescmd_list s))"

text \<open>
  The pruning law: no payload is carried by more than two retained commands, which is to
  say that between two retained commands with equal payload there is no third one.
  \<open>pruning_law_text\<close> is the law for the payloads that are not COM_STMT_PREPARE packets.
\<close>

definition pruning_law :: "SessionCommand list \<Rightarrow> bool" where
  "pruning_law L = list_all (\<lambda>d. length (filter (equal_pointees d) L) \<le> 2) L"

definition pruning_law_text :: "SessionCommand list \<Rightarrow> bool" where
  "pruning_law_text L =
     list_all (\<lambda>d. get_command d = MXS_COM_STMT_PREPARE
                    \<or> length (filter (equal_pointees d) L) \<le> 2) L"

subsection \<open>A concrete session\<close>

text \<open>
  A session with a master and a slave, both in use, the default configuration, and an
  environment in which every socket operation succeeds.
\<close>

definition example_master :: Backend where
  "example_master =
     \<lparr>name = ''server1'', in_use = True, is_closed = False, can_connect = True,
      is_master = True, is_slave = False, is_relay = False, rlag = 0, last_read = 0,
      is_waiting_result = False, reply_state = REPLY_STATE_DONE, session_commands = []\<rparr>"

definition example_slave :: Backend where
  "example_slave =
     \<lparr>name = ''server2'', in_use = True, is_closed = False, can_connect = True,
      is_master = False, is_slave = True, is_relay = False, rlag = 0, last_read = 0,
      is_waiting_result = False, reply_state = REPLY_STATE_DONE, session_commands = []\<rparr>"

definition example_config :: Config where
  "example_config =
     \<lparr>slave_selection_criteria = 0, max_sescmd_history = 50, disable_sescmd_history = False,
      master_accept_reads = False, master_reconnection = False,
      master_failure_mode = RW_FAIL_INSTANTLY, strict_multi_stmt = True,
      strict_sp_calls = True, retry_failed_reads = True, connection_keepalive = 300,
      enable_causal_read = False\<rparr>"

definition example_session :: RWSplitSession where
  "example_session =
     \<lparr>backends = [example_master, example_slave], current_master = Some 0,
      target_node = None, prev_target = None, large_query = False, exec_map = Map.empty,
      sescmd_list = [], sescmd_responses = [], sescmd_count = 1, sent_sescmd = 0,
      recv_sescmd = 0, expected_responses = 0, query_queue = [],
      rses_config = example_config, load_data_state = LOAD_DATA_INACTIVE,
      wait_gtid_state = EXPECTING_NOTHING, gtid_pos = [], have_tmp_tables = False,
      temp_tables = [], ps_manager = [], n_master = 0, n_slave = 0, n_queries = 0,
      warn_history_exceeded = True, trace = []\<rparr>"

definition example_env :: Env where
  "example_env =
     \<lparr>mxs_mysql_command_will_respond = (\<lambda>c. c \<noteq> 0x01 \<and> c \<noteq> 0x18 \<and> c \<noteq> 0x19),
      mxs_mysql_is_ps_command =
        (\<lambda>c. c = 0x17 \<or> c = 0x18 \<or> c = 0x19 \<or> c = 0x1a \<or> c = 0x1c),
      query_is_prepare = (\<lambda>t. t = 0x020000 \<or> t = 0x040000),
      replace_binary_ps_id = (\<lambda>buf ps_id. buf),
      execute_session_command = (\<lambda>i b. (True, b)),
      connect_result = (\<lambda>i. True),
      write_result = (\<lambda>i. True),
      send_readonly_error = True,
      session_store_stmt = True,
      session_trx_is_read_only = False,
      session_trx_is_ending = False,
      session_trx_is_active = False,
      locked_to_master = (\<lambda>s. False),
      get_max_replication_lag = (\<lambda>s. MAX_RLAG_UNDEFINED),
      get_root_master = (\<lambda>bs. Some 0),
      get_slave_counts = (\<lambda>bs m. (1, 1)),
      max_slave_count = 255,
      criteria_cmpfun = (\<lambda>sc a b. 0),
      hkheartbeat = 0,
      router_connection_keepalive = 0,
      router_enable_causal_read = False,
      add_prefix_wait_gtid = (\<lambda>b g buf. buf),
      hint_strtol = (\<lambda>v. 0),
      errno_is_zero = True,
      handle_target_is_all = (\<lambda>rt buf c t s. (True, s))\<rparr>"

text \<open>A COM_STMT_PREPARE packet: payload length 2, sequence 0, command 0x16, text "1".\<close>

definition example_prepare :: GWBUF where
  "example_prepare = \<lparr>data = [0x02, 0x00, 0x00, 0x00, 0x16, 0x31], hint = [], collect_result = False\<rparr>"

text \<open>A COM_QUERY packet with a one-byte statement.\<close>

definition example_query :: GWBUF where
  "example_query = \<lparr>data = [0x02, 0x00, 0x00, 0x00, 0x03, 0x31], hint = [], collect_result = False\<rparr>"

text \<open>"USE t" and "SET @a=1" as COM_QUERY packets.\<close>

definition example_use :: GWBUF where
  "example_use = \<lparr>data = [0x06, 0x00, 0x00, 0x00, 0x03, 0x55, 0x53, 0x45, 0x20, 0x74],
                   hint = [], collect_result = False\<rparr>"

definition example_set :: GWBUF where
  "example_set = \<lparr>data = [0x09, 0x00, 0x00, 0x00, 0x03, 0x53, 0x45, 0x54, 0x20, 0x40, 0x61, 0x3d, 0x31],
                   hint = [], collect_result = False\<rparr>"

definition example_history :: RWSplitSession where
  "example_history =
     example_session
       \<lparr>sescmd_list := [new_SessionCommand example_use 1, new_SessionCommand example_set 2,
                        new_SessionCommand example_use 3],
        sescmd_count := 4\<rparr>"



text \<open>Whether an event of the trace is a packet written to a backend.\<close>

fun is_backend_write :: "event \<Rightarrow> bool" where
  "is_backend_write (BackendWrite i buf r) = True"
| "is_backend_write e = False"

text \<open>
  A step is quiet when it leaves the query queue and the expected-response counter alone
  and writes no packet to a backend.
\<close>

definition quiet :: "RWSplitSession \<Rightarrow> RWSplitSession \<Rightarrow> bool" where
  "quiet s s' =
     (query_queue s' = query_queue s \<and> expected_responses s' = expected_responses s
      \<and> filter is_backend_write (trace s') = filter is_backend_write (trace s))"

text \<open>A read routed to a slave, and a session whose slave still has a session command to run.\<close>

definition example_read :: RouteInfo where
  "example_read =
     \<lparr>info_target = \<lparr>TARGET_IS_MASTER = False, TARGET_IS_SLAVE = True,
                      TARGET_IS_NAMED_SERVER = False, TARGET_IS_ALL = False,
                      TARGET_IS_RLAG_MAX = False\<rparr>,
      info_command = 0x03, info_type = 0, info_stmt_id = 0\<rparr>"

definition example_pending :: RWSplitSession where
  "example_pending =
     example_session
       \<lparr>backends := [example_master,
                      example_slave\<lparr>session_commands := [new_SessionCommand example_set 1]\<rparr>],
        sescmd_list := [new_SessionCommand example_set 1],
        sescmd_count := 2\<rparr>"






text \<open>
  A session with the history disabled and one completed session command, whose slave is
  not connected.
\<close>

definition example_refused :: RWSplitSession where
  "example_refused =
     example_session
       \<lparr>backends := [example_master, example_slave\<lparr>in_use := False\<rparr>],
        recv_sescmd := 1,
        rses_config := example_config\<lparr>disable_sescmd_history := True\<rparr>\<rparr>"

text \<open>The packets written to backends, in order.\<close>

definition writes_of :: "RWSplitSession \<Rightarrow> event list" where
  "writes_of s = filter is_backend_write (trace s)"

text \<open>The large-query state: the flag and the remembered backend.\<close>

definition large_state :: "RWSplitSession \<Rightarrow> bool \<times> nat option" where
  "large_state s = (large_query s, prev_target s)"

text \<open>
  A run of client packets through \<open>route_single_stmt\<close>, each with its routing
  information; the run stops at the first packet whose routing fails.
\<close>

fun route_packets :: "Env \<Rightarrow> (GWBUF \<times> RouteInfo) list \<Rightarrow> RWSplitSession \<Rightarrow> RWSplitSession" where
  "route_packets env [] s = s"
| "route_packets env ((querybuf, info) # rest) s =
     (let r = route_single_stmt env querybuf info s
      in if fst r then route_packets env rest (snd r) else snd r)"

text \<open>Whether every event of a list is a packet written to the backend \<open>t\<close>.\<close>

fun written_to :: "nat \<Rightarrow> event \<Rightarrow> bool" where
  "written_to t (BackendWrite i buf r) = (i = t)"
| "written_to t e = False"

text \<open>
  A COM_QUERY packet of the maximum wire length, and a session in the middle of a large
  query whose first packet went to the slave.
\<close>

definition example_big :: GWBUF where
  "example_big =
     \<lparr>data = [0xff, 0xff, 0xff, 0x00, 0x03] @ replicate 16777214 0x20,
      hint = [], collect_result = False\<rparr>"

definition example_large :: RWSplitSession where
  "example_large = example_session\<lparr>large_query := True, prev_target := Some 1\<rparr>"

text \<open>Routing information that sends a packet to all servers.\<close>

definition example_all :: RouteInfo where
  "example_all =
     \<lparr>info_target = \<lparr>TARGET_IS_MASTER = False, TARGET_IS_SLAVE = False,
                      TARGET_IS_NAMED_SERVER = False, TARGET_IS_ALL = True,
                      TARGET_IS_RLAG_MAX = False\<rparr>,
      info_command = 0x03, info_type = 0, info_stmt_id = 0\<rparr>"

text \<open>
  Modelled from the spec: \<open>handle_target_is_all\<close>, which is not among the sources. Spec
  section 4.4, step 3: a statement for all servers takes the append-and-broadcast flow of
  the session command log, which is \<open>route_session_write\<close>.
\<close>

definition example_env_all :: Env where
  "example_env_all =
     example_env\<lparr>handle_target_is_all :=
       (\<lambda>route_target querybuf command qtype s.
          route_session_write example_env querybuf command qtype s)\<rparr>"




















section \<open>Properties\<close>

lemma find_if_le: "find_if P xs \<le> length xs"
  by (induction xs) auto

lemma find_if_end: "find_if P xs = length xs \<Longrightarrow> filter P xs = []"
  by (induction xs) (auto split: if_splits)

lemma find_if_take: "filter P (take (find_if P xs) xs) = []"
  by (induction xs) auto

lemma find_if_nth: "find_if P xs < length xs \<Longrightarrow> P (xs ! find_if P xs)"
  by (induction xs) auto

lemma filter_erase_at:
  "filter Q (erase_at i xs) = filter Q (take i xs) @ filter Q (drop (Suc i) xs)"
  by (simp add: erase_at_def)

lemma filter_split_at:
  assumes "i < length xs"
  shows "filter Q xs = filter Q (take i xs) @ (if Q (xs ! i) then [xs ! i] else []) @ filter Q (drop (Suc i) xs)"
proof -
  have "filter Q xs = filter Q (take i xs @ xs ! i # drop (Suc i) xs)"
    using id_take_nth_drop [OF assms] by simp
  then show ?thesis by simp
qed

lemma sescmd_list_purge_history: "sescmd_list (purge_history s c) = purge_list c (sescmd_list s)"
  unfolding purge_history_def purge_list_def Let_def by simp

lemma purge_history_config: "rses_config (purge_history s c) = rses_config s"
  unfolding purge_history_def Let_def by simp

lemma length_filter_erase_at:
  assumes "i < length xs" and "Q (xs ! i)"
  shows "Suc (length (filter Q (erase_at i xs))) = length (filter Q xs)"
  using filter_split_at [OF assms(1), of Q] assms(2) by (simp add: filter_erase_at)

lemma filter_erase_at_other:
  assumes "i < length xs" and "\<not> Q (xs ! i)"
  shows "filter Q (erase_at i xs) = filter Q xs"
  using filter_split_at [OF assms(1), of Q] assms(2) by (simp add: filter_erase_at)

lemma set_erase_at: "set (erase_at i xs) \<subseteq> set xs"
  by (auto simp: erase_at_def dest: in_set_takeD in_set_dropD)

text \<open>\<open>purge_list\<close> changes nothing or erases one element equal to the new command.\<close>

lemma purge_list_cases:
  "purge_list c xs = xs \<and> (get_command c \<noteq> MXS_COM_STMT_PREPARE \<longrightarrow> length (filter (equal_pointees c) xs) \<le> 1)
   \<or> (\<exists>i < length xs. get_command c \<noteq> MXS_COM_STMT_PREPARE \<and> equal_pointees c (xs ! i) \<and> purge_list c xs = erase_at i xs)"
proof (cases "get_command c \<noteq> MXS_COM_STMT_PREPARE")
  case False
  then show ?thesis by (simp add: purge_list_def)
next
  case np: True
  let ?P = "equal_pointees c"
  let ?first = "find_if ?P xs"
  show ?thesis
  proof (cases "?first = length xs")
    case True
    then have "filter ?P xs = []" by (rule find_if_end)
    with True np show ?thesis by (simp add: purge_list_def)
  next
    case False
    with find_if_le [of ?P xs] have fl: "?first < length xs" by simp
    let ?ys = "drop (Suc ?first) xs"
    let ?k = "find_if ?P ?ys"
    let ?second = "Suc ?first + ?k"
    have kl: "?k \<le> length ?ys" by (rule find_if_le)
    show ?thesis
    proof (cases "?second = length xs")
      case True
      then have "?k = length ?ys" using fl by simp
      then have "filter ?P ?ys = []" by (rule find_if_end)
      moreover have "filter ?P (take ?first xs) = []" by (rule find_if_take)
      ultimately have "length (filter ?P xs) \<le> 1"
        using filter_split_at [OF fl, of ?P] by simp
      moreover have "purge_list c xs = xs"
        using np False True by (simp add: purge_list_def Let_def)
      ultimately show ?thesis by simp
    next
      case ns: False
      then have k: "?k < length ?ys" using kl fl by simp
      then have sl: "?second < length xs" by simp
      have "?P (?ys ! ?k)" using k by (rule find_if_nth)
      then have "?P (xs ! ?second)" using sl by (simp add: add.commute)
      moreover have "purge_list c xs = erase_at ?second xs"
        using np False ns by (simp add: purge_list_def Let_def)
      ultimately show ?thesis using sl np by blast
    qed
  qed
qed

lemma history_limit_sescmd_list:
  "sescmd_list (history_limit s) = (if limit_exceeded s then [] else sescmd_list s)"
  by (simp add: history_limit_def limit_exceeded_def Let_def)

lemma history_limit_config:
  "rses_config (history_limit s) =
     (if limit_exceeded s
      then (rses_config s)\<lparr>disable_sescmd_history := True, max_sescmd_history := 0\<rparr>
      else rses_config s)"
  by (simp add: history_limit_def limit_exceeded_def Let_def log_msg_def)

lemma prune_responses_sescmd_list: "sescmd_list (prune_responses p s) = sescmd_list s"
  by (simp add: prune_responses_def Let_def)

lemma prune_responses_config: "rses_config (prune_responses p s) = rses_config s"
  by (simp add: prune_responses_def Let_def)

lemma update_history_sescmd_list:
  "sescmd_list (update_history p c s) =
     (if disable_sescmd_history (rses_config s) then sescmd_list s
      else purge_list c (sescmd_list s) @ [c])"
  by (simp add: update_history_def prune_responses_sescmd_list sescmd_list_purge_history Let_def)

lemma update_history_config: "rses_config (update_history p c s) = rses_config s"
  by (simp add: update_history_def prune_responses_config purge_history_config Let_def)

lemma mark_sent_sescmd_list: "sescmd_list (mark_sent n i e s) = sescmd_list s"
  by (simp add: mark_sent_def Let_def)

lemma mark_sent_config: "rses_config (mark_sent n i e s) = rses_config s"
  by (simp add: mark_sent_def Let_def)

lemma store_prepare_sescmd_list: "sescmd_list (store_prepare env t c s) = sescmd_list s"
  by (simp add: store_prepare_def)

lemma store_prepare_config: "rses_config (store_prepare env t c s) = rses_config s"
  by (simp add: store_prepare_def)

lemma limit_exceeded_cong:
  "rses_config s' = rses_config s \<Longrightarrow> sescmd_list s' = sescmd_list s \<Longrightarrow> limit_exceeded s' = limit_exceeded s"
  by (simp add: limit_exceeded_def)

lemma rsw_sescmd_list:
  "sescmd_list (snd (route_session_write env querybuf command qtype s)) =
     (if limit_exceeded s then []
      else if disable_sescmd_history (rses_config s) then sescmd_list s
      else purge_list (created_sescmd env querybuf qtype s) (sescmd_list s)
             @ [created_sescmd env querybuf qtype s])"
proof -
  define s3 where "s3 = log_msg LOG_INFO ''Session write, routing to all servers.''
     (store_prepare env qtype (created_sescmd env querybuf qtype s) (s\<lparr>sescmd_count := sescmd_count s + 1\<rparr>))"
  have c3: "rses_config s3 = rses_config s" and l3: "sescmd_list s3 = sescmd_list s"
    by (simp_all add: s3_def log_msg_def store_prepare_config store_prepare_sescmd_list)
  show ?thesis
    unfolding route_session_write_def Let_def s3_def [symmetric]
    by (simp add: mark_sent_sescmd_list update_history_sescmd_list history_limit_sescmd_list
        history_limit_config limit_exceeded_def c3 l3)
qed

lemma equal_pointees_class: "equal_pointees c d \<Longrightarrow> equal_pointees d = equal_pointees c"
  by (auto simp: equal_pointees_def fun_eq_iff)

lemma equal_pointees_command: "equal_pointees c d \<Longrightarrow> get_command d = get_command c"
  by (simp add: equal_pointees_def get_command_def mxs_mysql_get_command_def)

lemma equal_pointees_refl: "equal_pointees c c"
  by (simp add: equal_pointees_def)

lemma purge_list_subset: "set (purge_list c xs) \<subseteq> set xs"
  using purge_list_cases [of c xs] set_erase_at by (metis order_refl)

lemma purge_list_prepare: "get_command c = MXS_COM_STMT_PREPARE \<Longrightarrow> purge_list c xs = xs"
  by (simp add: purge_list_def)

lemma purge_list_other:
  assumes "\<not> equal_pointees c d"
  shows "filter (equal_pointees d) (purge_list c xs) = filter (equal_pointees d) xs"
proof -
  from purge_list_cases [of c xs] show ?thesis
  proof
    assume "purge_list c xs = xs \<and> (get_command c \<noteq> MXS_COM_STMT_PREPARE \<longrightarrow> length (filter (equal_pointees c) xs) \<le> 1)"
    then show ?thesis by simp
  next
    assume "\<exists>i<length xs. get_command c \<noteq> MXS_COM_STMT_PREPARE \<and> equal_pointees c (xs ! i) \<and> purge_list c xs = erase_at i xs"
    then obtain i where i: "i < length xs" "equal_pointees c (xs ! i)" "purge_list c xs = erase_at i xs"
      by blast
    have "\<not> equal_pointees d (xs ! i)"
      using assms i(2) by (auto simp: equal_pointees_def)
    with i show ?thesis by (simp add: filter_erase_at_other)
  qed
qed

lemma purge_list_same:
  assumes "get_command c \<noteq> MXS_COM_STMT_PREPARE"
    and "length (filter (equal_pointees c) xs) \<le> 2"
  shows "length (filter (equal_pointees c) (purge_list c xs)) \<le> 1"
proof -
  from purge_list_cases [of c xs] show ?thesis
  proof
    assume "purge_list c xs = xs \<and> (get_command c \<noteq> MXS_COM_STMT_PREPARE \<longrightarrow> length (filter (equal_pointees c) xs) \<le> 1)"
    with assms(1) show ?thesis by simp
  next
    assume "\<exists>i<length xs. get_command c \<noteq> MXS_COM_STMT_PREPARE \<and> equal_pointees c (xs ! i) \<and> purge_list c xs = erase_at i xs"
    then obtain i where i: "i < length xs" "equal_pointees c (xs ! i)" "purge_list c xs = erase_at i xs"
      by blast
    from length_filter_erase_at [OF i(1), of "equal_pointees c"] i(2) assms(2)
    show ?thesis by (simp add: i(3))
  qed
qed

lemma pruning_law_text_append:
  assumes law: "pruning_law_text xs"
  shows "pruning_law_text (purge_list c xs @ [c])"
  unfolding pruning_law_text_def list_all_iff
proof
  fix d
  assume d: "d \<in> set (purge_list c xs @ [c])"
  let ?L = "purge_list c xs @ [c]"
  show "get_command d = MXS_COM_STMT_PREPARE \<or> length (filter (equal_pointees d) ?L) \<le> 2"
  proof (cases "get_command d = MXS_COM_STMT_PREPARE")
    case True
    then show ?thesis by simp
  next
    case np: False
    show ?thesis
    proof (cases "equal_pointees c d")
      case False
      then have dx: "d \<in> set xs"
        using d purge_list_subset [of c xs] by (auto simp: equal_pointees_refl)
      have "\<not> equal_pointees d c" using False by (auto simp: equal_pointees_def)
      then have "filter (equal_pointees d) ?L = filter (equal_pointees d) xs"
        using purge_list_other [OF False, of xs] by simp
      moreover have "length (filter (equal_pointees d) xs) \<le> 2"
        using law dx np by (auto simp: pruning_law_text_def list_all_iff)
      ultimately show ?thesis by simp
    next
      case True
      then have cls: "equal_pointees d = equal_pointees c" by (rule equal_pointees_class)
      have cnp: "get_command c \<noteq> MXS_COM_STMT_PREPARE"
        using np equal_pointees_command [OF True] by simp
      have "length (filter (equal_pointees c) xs) \<le> 2"
      proof (cases "filter (equal_pointees c) xs = []")
        case True
        then show ?thesis by simp
      next
        case False
        then obtain x where x: "x \<in> set xs" "equal_pointees c x"
          by (auto simp: filter_empty_conv)
        have "get_command x \<noteq> MXS_COM_STMT_PREPARE"
          using cnp equal_pointees_command [OF x(2)] by simp
        then have "length (filter (equal_pointees x) xs) \<le> 2"
          using law x(1) by (auto simp: pruning_law_text_def list_all_iff)
        then show ?thesis using equal_pointees_class [OF x(2)] by simp
      qed
      from purge_list_same [OF cnp this]
      show ?thesis by (simp add: cls equal_pointees_refl)
    qed
  qed
qed

lemma pruning_law_text_Nil: "pruning_law_text []"
  by (simp add: pruning_law_text_def)

lemma purge_list_keeps_prepare:
  "filter (\<lambda>x. get_command x = MXS_COM_STMT_PREPARE) (purge_list c xs)
     = filter (\<lambda>x. get_command x = MXS_COM_STMT_PREPARE) xs"
proof -
  from purge_list_cases [of c xs] show ?thesis
  proof
    assume "purge_list c xs = xs \<and> (get_command c \<noteq> MXS_COM_STMT_PREPARE \<longrightarrow> length (filter (equal_pointees c) xs) \<le> 1)"
    then show ?thesis by simp
  next
    assume "\<exists>i<length xs. get_command c \<noteq> MXS_COM_STMT_PREPARE \<and> equal_pointees c (xs ! i) \<and> purge_list c xs = erase_at i xs"
    then obtain i where i: "i < length xs" "get_command c \<noteq> MXS_COM_STMT_PREPARE"
       "equal_pointees c (xs ! i)" "purge_list c xs = erase_at i xs"
      by blast
    have "get_command (xs ! i) \<noteq> MXS_COM_STMT_PREPARE"
      using i(2) equal_pointees_command [OF i(3)] by simp
    with i show ?thesis by (simp add: filter_erase_at_other)
  qed
qed

lemma purge_list_first:
  "find_if (equal_pointees c) xs < length xs \<Longrightarrow>
     take (Suc (find_if (equal_pointees c) xs)) (purge_list c xs) = take (Suc (find_if (equal_pointees c) xs)) xs"
  by (simp add: purge_list_def Let_def erase_at_def)

lemma rsw_config:
  "rses_config (snd (route_session_write env querybuf command qtype s)) =
     (if limit_exceeded s
      then (rses_config s)\<lparr>disable_sescmd_history := True, max_sescmd_history := 0\<rparr>
      else rses_config s)"
proof -
  define s3 where "s3 = log_msg LOG_INFO ''Session write, routing to all servers.''
     (store_prepare env qtype (created_sescmd env querybuf qtype s) (s\<lparr>sescmd_count := sescmd_count s + 1\<rparr>))"
  have c3: "rses_config s3 = rses_config s" and l3: "sescmd_list s3 = sescmd_list s"
    by (simp_all add: s3_def log_msg_def store_prepare_config store_prepare_sescmd_list)
  show ?thesis
    unfolding route_session_write_def Let_def s3_def [symmetric]
    by (simp add: mark_sent_config update_history_config history_limit_config limit_exceeded_def c3 l3)
qed

lemma history_limit_sescmd_count: "sescmd_count (history_limit s) = sescmd_count s"
  by (simp add: history_limit_def Let_def log_msg_def)

lemma update_history_sescmd_count: "sescmd_count (update_history p c s) = sescmd_count s"
  by (simp add: update_history_def prune_responses_def purge_history_def Let_def)

lemma mark_sent_sescmd_count: "sescmd_count (mark_sent n i e s) = sescmd_count s"
  by (simp add: mark_sent_def Let_def)

lemma store_prepare_sescmd_count: "sescmd_count (store_prepare env t c s) = sescmd_count s"
  by (simp add: store_prepare_def)

lemma rsw_sescmd_count:
  "sescmd_count (snd (route_session_write env querybuf command qtype s)) = sescmd_count s + 1"
  unfolding route_session_write_def Let_def
  by (simp add: mark_sent_sescmd_count update_history_sescmd_count history_limit_sescmd_count
      log_msg_def store_prepare_sescmd_count)

lemma purge_list_first_app:
  assumes "find_if (equal_pointees c) xs < length xs"
  shows "take (Suc (find_if (equal_pointees c) xs)) (purge_list c xs @ [c])
           = take (Suc (find_if (equal_pointees c) xs)) xs"
  using assms find_if_le [of "equal_pointees c" "drop (Suc (find_if (equal_pointees c) xs)) xs"]
  by (auto simp: purge_list_def Let_def erase_at_def min_def)

lemma three_indices_count:
  assumes "i < j" "j < k" "k < length L" "P (L ! i)" "P (L ! j)" "P (L ! k)"
  shows "3 \<le> length (filter P L)"
proof -
  let ?S = "{n. n < length L \<and> P (L ! n)}"
  have "{i, j, k} \<subseteq> ?S" using assms by auto
  moreover have "finite ?S" by simp
  ultimately have "card {i, j, k} \<le> card ?S" by (rule card_mono [rotated])
  moreover have "card {i, j, k} = 3" using assms(1,2) by simp
  ultimately show ?thesis by (simp add: length_filter_conv_card)
qed

lemma count_three_indices:
  assumes "3 \<le> length (filter P L)"
  shows "\<exists>i j k. i < j \<and> j < k \<and> k < length L \<and> P (L ! i) \<and> P (L ! j) \<and> P (L ! k)"
proof -
  let ?S = "{n. n < length L \<and> P (L ! n)}"
  have "3 \<le> card ?S" using assms by (simp add: length_filter_conv_card)
  then obtain T where T: "T \<subseteq> ?S" "card T = 3"
    using obtain_subset_with_card_n by metis
  then obtain x y z where xyz: "T = {x, y, z}" "x \<noteq> y" "y \<noteq> z" "x \<noteq> z"
    by (auto simp: card_3_iff)
  then have mem: "x \<in> ?S" "y \<in> ?S" "z \<in> ?S" using T(1) by auto
  obtain a b c where "a < b" "b < c" "a \<in> ?S" "b \<in> ?S" "c \<in> ?S"
  proof -
    consider "x < y \<and> y < z" | "x < z \<and> z < y" | "y < x \<and> x < z" | "y < z \<and> z < x"
      | "z < x \<and> x < y" | "z < y \<and> y < x"
      using xyz(2-4) by linarith
    then show ?thesis
    proof cases
      case 1 then show ?thesis using that [of x y z] mem by blast
    next
      case 2 then show ?thesis using that [of x z y] mem by blast
    next
      case 3 then show ?thesis using that [of y x z] mem by blast
    next
      case 4 then show ?thesis using that [of y z x] mem by blast
    next
      case 5 then show ?thesis using that [of z x y] mem by blast
    next
      case 6 then show ?thesis using that [of z y x] mem by blast
    qed
  qed
  then show ?thesis by blast
qed

text \<open>
  The pruning law said with positions: no three retained commands, one between the two
  others, have the same payload. The same holds for \<open>pruning_law_text\<close> and the payloads
  that are not COM_STMT_PREPARE packets.
\<close>

lemma pruning_law_between:
  "pruning_law L =
     (\<not> (\<exists>i j k. i < j \<and> j < k \<and> k < length L
            \<and> equal_pointees (L ! i) (L ! j) \<and> equal_pointees (L ! j) (L ! k)))"
proof
  assume law: "pruning_law L"
  show "\<not> (\<exists>i j k. i < j \<and> j < k \<and> k < length L
            \<and> equal_pointees (L ! i) (L ! j) \<and> equal_pointees (L ! j) (L ! k))"
  proof
    assume "\<exists>i j k. i < j \<and> j < k \<and> k < length L
            \<and> equal_pointees (L ! i) (L ! j) \<and> equal_pointees (L ! j) (L ! k)"
    then obtain i j k where h: "i < j" "j < k" "k < length L"
      "equal_pointees (L ! i) (L ! j)" "equal_pointees (L ! j) (L ! k)"
      by blast
    have "equal_pointees (L ! i) (L ! k)" using h(4,5) by (simp add: equal_pointees_def)
    from three_indices_count [OF h(1-3), of "equal_pointees (L ! i)"] this h(4)
    have "3 \<le> length (filter (equal_pointees (L ! i)) L)"
      by (simp add: equal_pointees_refl)
    moreover have "L ! i \<in> set L" using h(1-3) by simp
    ultimately show False using law by (auto simp: pruning_law_def list_all_iff)
  qed
next
  assume n: "\<not> (\<exists>i j k. i < j \<and> j < k \<and> k < length L
            \<and> equal_pointees (L ! i) (L ! j) \<and> equal_pointees (L ! j) (L ! k))"
  show "pruning_law L"
    unfolding pruning_law_def list_all_iff
  proof
    fix d assume "d \<in> set L"
    show "length (filter (equal_pointees d) L) \<le> 2"
    proof (rule ccontr)
      assume "\<not> length (filter (equal_pointees d) L) \<le> 2"
      then have "3 \<le> length (filter (equal_pointees d) L)" by simp
      from count_three_indices [OF this]
      obtain i j k where h: "i < j" "j < k" "k < length L" "equal_pointees d (L ! i)"
        "equal_pointees d (L ! j)" "equal_pointees d (L ! k)"
        by blast
      then have "equal_pointees (L ! i) (L ! j)" "equal_pointees (L ! j) (L ! k)"
        by (simp_all add: equal_pointees_def)
      with h(1-3) n show False by blast
    qed
  qed
qed

lemma pruning_law_text_between:
  "pruning_law_text L =
     (\<not> (\<exists>i j k. i < j \<and> j < k \<and> k < length L
            \<and> get_command (L ! i) \<noteq> MXS_COM_STMT_PREPARE
            \<and> equal_pointees (L ! i) (L ! j) \<and> equal_pointees (L ! j) (L ! k)))"
proof
  assume law: "pruning_law_text L"
  show "\<not> (\<exists>i j k. i < j \<and> j < k \<and> k < length L
            \<and> get_command (L ! i) \<noteq> MXS_COM_STMT_PREPARE
            \<and> equal_pointees (L ! i) (L ! j) \<and> equal_pointees (L ! j) (L ! k))"
  proof
    assume "\<exists>i j k. i < j \<and> j < k \<and> k < length L
            \<and> get_command (L ! i) \<noteq> MXS_COM_STMT_PREPARE
            \<and> equal_pointees (L ! i) (L ! j) \<and> equal_pointees (L ! j) (L ! k)"
    then obtain i j k where h: "i < j" "j < k" "k < length L"
      "get_command (L ! i) \<noteq> MXS_COM_STMT_PREPARE"
      "equal_pointees (L ! i) (L ! j)" "equal_pointees (L ! j) (L ! k)"
      by blast
    have "equal_pointees (L ! i) (L ! k)" using h(5,6) by (simp add: equal_pointees_def)
    from three_indices_count [OF h(1-3), of "equal_pointees (L ! i)"] this h(5)
    have "3 \<le> length (filter (equal_pointees (L ! i)) L)"
      by (simp add: equal_pointees_refl)
    moreover have "L ! i \<in> set L" using h(1-3) by simp
    ultimately show False using law h(4) by (auto simp: pruning_law_text_def list_all_iff)
  qed
next
  assume n: "\<not> (\<exists>i j k. i < j \<and> j < k \<and> k < length L
            \<and> get_command (L ! i) \<noteq> MXS_COM_STMT_PREPARE
            \<and> equal_pointees (L ! i) (L ! j) \<and> equal_pointees (L ! j) (L ! k))"
  show "pruning_law_text L"
    unfolding pruning_law_text_def list_all_iff
  proof
    fix d assume "d \<in> set L"
    show "get_command d = MXS_COM_STMT_PREPARE \<or> length (filter (equal_pointees d) L) \<le> 2"
    proof (rule ccontr)
      assume a: "\<not> (get_command d = MXS_COM_STMT_PREPARE
                    \<or> length (filter (equal_pointees d) L) \<le> 2)"
      then have "3 \<le> length (filter (equal_pointees d) L)" by simp
      from count_three_indices [OF this]
      obtain i j k where h: "i < j" "j < k" "k < length L" "equal_pointees d (L ! i)"
        "equal_pointees d (L ! j)" "equal_pointees d (L ! k)"
        by blast
      then have "equal_pointees (L ! i) (L ! j)" "equal_pointees (L ! j) (L ! k)"
        by (simp_all add: equal_pointees_def)
      moreover have "get_command (L ! i) \<noteq> MXS_COM_STMT_PREPARE"
        using a equal_pointees_command [OF h(4)] by simp
      ultimately show False using h(1-3) n by blast
    qed
  qed
qed

text \<open>
  C1, as amended. Whatever path \<open>route_session_write\<close> takes, the history keeps the
  pruning law for every payload that is not a COM_STMT_PREPARE: no such payload is carried
  by three retained commands. When the command is appended to the history (limit not
  reached, history not disabled), it is the last entry, every COM_STMT_PREPARE of the
  history is still there, and the first command with the payload of the new one stays
  where it was, so only a middle duplicate can have been deleted.
\<close>

theorem C1_pruning:
  assumes "pruning_law_text (sescmd_list s)"
  shows "pruning_law_text (sescmd_list (snd (route_session_write env querybuf command qtype s)))
    \<and> (\<not> limit_exceeded s \<and> \<not> disable_sescmd_history (rses_config s) \<longrightarrow>
         last (sescmd_list (snd (route_session_write env querybuf command qtype s)))
           = created_sescmd env querybuf qtype s
       \<and> filter (\<lambda>x. get_command x = MXS_COM_STMT_PREPARE)
           (sescmd_list (snd (route_session_write env querybuf command qtype s)))
         = filter (\<lambda>x. get_command x = MXS_COM_STMT_PREPARE)
             (sescmd_list s @ [created_sescmd env querybuf qtype s])
       \<and> (find_if (equal_pointees (created_sescmd env querybuf qtype s)) (sescmd_list s)
             < length (sescmd_list s) \<longrightarrow>
           take (Suc (find_if (equal_pointees (created_sescmd env querybuf qtype s)) (sescmd_list s)))
             (sescmd_list (snd (route_session_write env querybuf command qtype s)))
           = take (Suc (find_if (equal_pointees (created_sescmd env querybuf qtype s)) (sescmd_list s)))
               (sescmd_list s)))"
proof -
  let ?c = "created_sescmd env querybuf qtype s"
  let ?L = "sescmd_list (snd (route_session_write env querybuf command qtype s))"
  have law: "pruning_law_text ?L"
    using assms pruning_law_text_append [OF assms, of ?c]
    by (simp add: rsw_sescmd_list pruning_law_text_Nil)
  have rest: "?L = purge_list ?c (sescmd_list s) @ [?c]"
    if "\<not> limit_exceeded s" "\<not> disable_sescmd_history (rses_config s)"
    using that by (simp add: rsw_sescmd_list)
  have first: "take (Suc (find_if (equal_pointees ?c) (sescmd_list s))) (purge_list ?c (sescmd_list s) @ [?c])
      = take (Suc (find_if (equal_pointees ?c) (sescmd_list s))) (sescmd_list s)"
    if "find_if (equal_pointees ?c) (sescmd_list s) < length (sescmd_list s)"
    using that by (rule purge_list_first_app)
  show ?thesis
    using law rest first by (auto simp: purge_list_keeps_prepare)
qed

lemma example_not_exceeded: "\<not> limit_exceeded example_session"
  by (simp add: limit_exceeded_def example_session_def example_config_def)

text \<open>
  C1 as stated fails: three identical COM_STMT_PREPARE packets sent to a fresh session are
  all retained, so a third command with the same payload lies between two retained ones.
\<close>

theorem C1_counterexample:
  "\<not> pruning_law (sescmd_list (snd (route_session_write example_env example_prepare 0x16 0x040000
        (snd (route_session_write example_env example_prepare 0x16 0x040000
           (snd (route_session_write example_env example_prepare 0x16 0x040000 example_session)))))))"
  by (simp add: rsw_sescmd_list rsw_config rsw_sescmd_count limit_exceeded_def purge_list_def
      created_sescmd_def new_SessionCommand_def get_command_def mxs_mysql_get_command_def
      MYSQL_HEADER_LEN_def MXS_COM_STMT_PREPARE_def example_session_def example_config_def
      example_env_def example_prepare_def pruning_law_def equal_pointees_def)

text \<open>
  C1 at a concrete history: USE, SET, USE followed by a third USE keeps the first USE and
  the SET, deletes the second USE and appends the new one.
\<close>

theorem C1_witness:
  "pruning_law_text (sescmd_list example_history)
   \<and> pruning_law_text (sescmd_list (snd (route_session_write example_env example_use 0x03 0 example_history)))
   \<and> sescmd_list (snd (route_session_write example_env example_use 0x03 0 example_history))
       = [new_SessionCommand example_use 1, new_SessionCommand example_set 2,
          new_SessionCommand example_use 4]"
proof -
  have h: "pruning_law_text (sescmd_list example_history)"
    by (simp add: pruning_law_text_def example_history_def new_SessionCommand_def
        equal_pointees_def example_use_def example_set_def)
  have l: "sescmd_list (snd (route_session_write example_env example_use 0x03 0 example_history))
       = [new_SessionCommand example_use 1, new_SessionCommand example_set 2,
          new_SessionCommand example_use 4]"
    by (simp add: rsw_sescmd_list limit_exceeded_def purge_list_def
      created_sescmd_def new_SessionCommand_def get_command_def mxs_mysql_get_command_def
      MYSQL_HEADER_LEN_def MXS_COM_STMT_PREPARE_def example_session_def example_config_def
      example_env_def example_use_def example_set_def example_history_def equal_pointees_def erase_at_def)
  from C1_pruning [where s = example_history and env = example_env and querybuf = example_use
      and command = 3 and qtype = 0] h l
  show ?thesis by simp
qed


lemma loop_nth:
  "k < length bs \<Longrightarrow>
     fst (session_write_loop env c e i bs acc) ! k =
       (if in_use (bs ! k)
        then snd (execute_session_command env (i + k) (append_session_command (bs ! k) c))
        else bs ! k)"
proof (induction bs arbitrary: i acc k)
  case Nil
  then show ?case by simp
next
  case (Cons b bs)
  obtain lp n ex tr where acc: "acc = (lp, n, ex, tr)" by (cases acc) auto
  show ?case
  proof (cases k)
    case 0
    then show ?thesis unfolding acc by (simp add: Let_def)
  next
    case (Suc j)
    with Cons.prems have "j < length bs" by simp
    from Cons.IH [OF this] show ?thesis unfolding acc Suc by (simp add: Let_def)
  qed
qed


lemma history_limit_backends: "backends (history_limit s) = backends s"
  by (simp add: history_limit_def Let_def log_msg_def)

lemma update_history_backends: "backends (update_history p c s) = backends s"
  by (simp add: update_history_def prune_responses_def purge_history_def Let_def)

lemma mark_sent_backends: "backends (mark_sent n i e s) = backends s"
  by (simp add: mark_sent_def Let_def)

lemma store_prepare_backends: "backends (store_prepare env t c s) = backends s"
  by (simp add: store_prepare_def)

lemma rsw_backends:
  "backends (snd (route_session_write env querybuf command qtype s)) =
     fst (session_write_loop env (created_sescmd env querybuf qtype s)
            (mxs_mysql_command_will_respond env command) 0 (backends s)
            (sescmd_count s, 0, expected_responses s,
             trace s @ [Log LOG_INFO ''Session write, routing to all servers.'']))"
  unfolding route_session_write_def Let_def
  by (simp add: mark_sent_backends update_history_backends history_limit_backends
      store_prepare_def log_msg_def)







lemma quiet_refl: "quiet s s"
  by (simp add: quiet_def)

lemma quiet_trans: "quiet s s1 \<Longrightarrow> quiet s1 s2 \<Longrightarrow> quiet s s2"
  by (simp add: quiet_def)

lemma quiet_log_msg: "quiet s (log_msg lvl msg s)"
  by (simp add: quiet_def log_msg_def)

lemma quiet_get_master_backend: "quiet s (snd (get_master_backend env s))"
  by (simp add: get_master_backend_def Let_def quiet_refl quiet_log_msg split: option.split)

lemma quiet_get_target_backend: "quiet s (snd (get_target_backend env btype nm max_rlag s))"
  by (simp add: get_target_backend_def quiet_refl quiet_log_msg quiet_get_master_backend
      split: option.split)

lemma hint_loop_writes:
  "filter is_backend_write (snd (snd (hint_loop env hs (ns, rl, tr)))) = filter is_backend_write tr"
  by (induction env hs "(ns, rl, tr)" arbitrary: ns rl tr rule: hint_loop.induct)
     (simp_all add: Let_def)

lemma quiet_trace_update:
  "filter is_backend_write tr = filter is_backend_write (trace s) \<Longrightarrow> quiet s (s\<lparr>trace := tr\<rparr>)"
  by (simp add: quiet_def)

lemma quiet_handle_hinted_target:
  "quiet s (snd (handle_hinted_target env querybuf route_target s))"
proof -
  define hl where "hl = hint_loop env (hint querybuf) (None, MAX_RLAG_UNDEFINED, trace s)"
  define s1 where "s1 = s\<lparr>trace := snd (snd hl)\<rparr>"
  have q1: "quiet s s1"
    unfolding s1_def hl_def by (rule quiet_trace_update) (rule hint_loop_writes)
  have q2: "quiet s (snd (get_target_backend env b n r s1))" for b n r
    using q1 quiet_get_target_backend by (rule quiet_trans)
  have q3: "quiet s (log_msg l m (snd (get_target_backend env b n r s1)))" for b n r l m
    using q2 quiet_log_msg by (rule quiet_trans)
  show ?thesis
    unfolding handle_hinted_target_def Let_def hl_def [symmetric] s1_def [symmetric]
    by (simp add: q2 q3)
qed

lemma quiet_n_slave: "quiet s s' \<Longrightarrow> quiet s (s'\<lparr>n_slave := n\<rparr>)"
  by (simp add: quiet_def)

lemma quiet_handle_slave_is_target:
  "quiet s (snd (handle_slave_is_target env cmd stmt_id s))"
proof -
  have a: "quiet s (snd (get_target_backend env b n r s))" for b n r
    by (rule quiet_get_target_backend)
  have b: "quiet s (snd (get_target_backend env b n r (log_msg l m s)))" for b n r l m
    using quiet_log_msg quiet_get_target_backend by (rule quiet_trans)
  have c: "quiet s (log_msg l' m' (snd (get_target_backend env b n r (log_msg l m s))))" for b n r l m l' m'
    using b quiet_log_msg by (rule quiet_trans)
  have d: "quiet s (log_msg l' m' (snd (get_target_backend env b n r s)))" for b n r l' m'
    using a quiet_log_msg by (rule quiet_trans)
  show ?thesis
    unfolding handle_slave_is_target_def Let_def
    by (simp add: a b c d quiet_n_slave quiet_log_msg split: option.split)
qed

lemma quiet_log_master_routing_failure:
  "quiet s (log_master_routing_failure found old_master curr_master s)"
  unfolding log_master_routing_failure_def Let_def by (rule quiet_log_msg)

lemma quiet_emit: "\<not> is_backend_write e \<Longrightarrow> quiet s (emit e s)"
  by (simp add: quiet_def emit_def)

lemma quiet_close_current_master: "quiet s (close_current_master s)"
  by (simp add: close_current_master_def quiet_def emit_def split: option.split)

lemma quiet_replace_master: "quiet s (replace_master t s)"
  by (simp add: replace_master_def quiet_def)

lemma quiet_handle_master_is_target:
  "quiet s (snd (snd (handle_master_is_target env s)))"
proof -
  define s1 where "s1 = snd (get_target_backend env BE_MASTER None MAX_RLAG_UNDEFINED s)"
  define t where "t = fst (get_target_backend env BE_MASTER None MAX_RLAG_UNDEFINED s)"
  define s2 where "s2 = (if should_replace_master env t s1
                then replace_master t (log_msg LOG_INFO ''Replacing old master with new master'' s1)
                else s1)"
  have q1: "quiet s s1" unfolding s1_def by (rule quiet_get_target_backend)
  have q2: "quiet s s2"
    unfolding s2_def using q1 quiet_trans [OF quiet_trans [OF q1 quiet_log_msg] quiet_replace_master]
    by simp
  have q3: "quiet s (s2\<lparr>n_master := n\<rparr>)" for n using q2 by (simp add: quiet_def)
  have q4: "quiet s (close_current_master (emit ReadonlyError s2))"
    by (rule quiet_trans [OF quiet_trans [OF q2 quiet_emit] quiet_close_current_master]) simp
  have q5: "quiet s (log_master_routing_failure f a b s2)" for f a b
    using q2 quiet_log_master_routing_failure by (rule quiet_trans)
  show ?thesis
    unfolding handle_master_is_target_def Let_def t_def [symmetric] s1_def [symmetric] s2_def [symmetric]
    by (simp add: q3 q4 q5)
qed

lemma quiet_target_node: "quiet s s' \<Longrightarrow> quiet s (s'\<lparr>target_node := n\<rparr>)"
  by (simp add: quiet_def)

lemma quiet_resolve_target:
  "quiet s (snd (snd (snd (resolve_target env querybuf info s))))"
  unfolding resolve_target_def Let_def
  by (simp add: quiet_refl quiet_handle_hinted_target quiet_handle_slave_is_target
      quiet_handle_master_is_target quiet_target_node)

lemma quiet_prepare_target: "quiet s (snd (prepare_target env target route_target s))"
  unfolding prepare_target_def Let_def
  by (simp add: quiet_refl quiet_log_msg) (simp add: quiet_def emit_def)

lemma keepalive_loop_writes:
  "filter is_backend_write (keepalive_loop hb k target i bs) = []"
  by (induction bs arbitrary: i) simp_all

lemma quiet_handle_connection_keepalive: "quiet s (handle_connection_keepalive env target s)"
  by (simp add: handle_connection_keepalive_def Let_def quiet_def keepalive_loop_writes)

text \<open>
  C3. When the target that \<open>route_single_stmt\<close> has resolved and prepared has pending
  session commands, the call writes nothing to any backend: it appends the packet to the
  query queue, adds one to \<open>expected_responses\<close> and returns true.
\<close>

theorem C3_deferred:
  assumes "\<not> TARGET_IS_ALL (info_target info)"
    and "resolve_target env (ps_id_replaced env querybuf info s) info s = (True, Some t, store, s1)"
    and "prepare_target env t (info_target info) s1 = (True, s2)"
    and "have_session_commands (backends s2 ! t)"
  shows "fst (route_single_stmt env querybuf info s)
    \<and> query_queue (snd (route_single_stmt env querybuf info s))
        = query_queue s @ [ps_id_replaced env querybuf info s]
    \<and> expected_responses (snd (route_single_stmt env querybuf info s))
        = expected_responses s + 1
    \<and> filter is_backend_write (trace (snd (route_single_stmt env querybuf info s)))
        = filter is_backend_write (trace s)"
proof -
  let ?q = "ps_id_replaced env querybuf info s"
  let ?d = "s2\<lparr>expected_responses := expected_responses s2 + 1,
               query_queue := query_queue s2 @ [?q]\<rparr>"
  have q1: "quiet s s1"
    using quiet_resolve_target [of s env ?q info] assms(2) by simp
  have q2: "quiet s1 s2"
    using quiet_prepare_target [of s1 env t "info_target info"] assms(3) by simp
  have q: "quiet s s2" using q1 q2 by (rule quiet_trans)
  have d: "dispatch_target env ?q info (\<not> locked_to_master env s) t store s1 = (True, ?d)"
    using assms(3,4) by (simp add: dispatch_target_def Let_def)
  have r: "route_single_stmt env querybuf info s = (True, ?d)
           \<or> route_single_stmt env querybuf info s
                = (True, handle_connection_keepalive env (Some t) ?d)"
    using assms(1,2) d by (simp add: route_single_stmt_def Let_def)
  have k: "quiet ?d (handle_connection_keepalive env (Some t) ?d)"
    by (rule quiet_handle_connection_keepalive)
  from r show ?thesis
  proof
    assume "route_single_stmt env querybuf info s = (True, ?d)"
    then show ?thesis using q by (simp add: quiet_def)
  next
    assume "route_single_stmt env querybuf info s
                = (True, handle_connection_keepalive env (Some t) ?d)"
    then show ?thesis using q k by (simp add: quiet_def)
  qed
qed

lemma example_pending_slave:
  "get_slave_backend example_env MAX_RLAG_UNDEFINED example_pending = Some 1"
  by (simp add: get_slave_backend_def example_pending_def example_session_def example_env_def
      example_master_def example_slave_def example_config_def rpl_lag_is_ok_def
      upt_rec [of 0] upt_rec [of "Suc 0"])

lemma example_pending_resolve:
  "resolve_target example_env (ps_id_replaced example_env example_query example_read example_pending)
      example_read example_pending
    = (True, Some 1, True, example_pending\<lparr>n_slave := 1\<rparr>)"
proof -
  have a: "get_max_replication_lag example_env s = MAX_RLAG_UNDEFINED" for s
    by (simp add: example_env_def)
  have b: "\<not> session_trx_is_read_only example_env" by (simp add: example_env_def)
  have c: "n_slave example_pending = 0" "retry_failed_reads (rses_config example_pending)"
     "\<not> large_query example_pending"
    by (simp_all add: example_pending_def example_session_def example_config_def)
  show ?thesis
    by (simp add: resolve_target_def handle_slave_is_target_def get_target_backend_def
        example_pending_slave a b c example_read_def Let_def MXS_COM_STMT_FETCH_def)
qed

text \<open>
  C3 at the concrete session: the read resolves to the slave, which has a pending session
  command, so the packet is queued.
\<close>

theorem C3_witness:
  "\<not> TARGET_IS_ALL (info_target example_read)
   \<and> resolve_target example_env
        (ps_id_replaced example_env example_query example_read example_pending)
        example_read example_pending
       = (True, Some 1, True, example_pending\<lparr>n_slave := 1\<rparr>)
   \<and> prepare_target example_env 1 (info_target example_read) (example_pending\<lparr>n_slave := 1\<rparr>)
       = (True, example_pending\<lparr>n_slave := 1\<rparr>)
   \<and> have_session_commands (backends (example_pending\<lparr>n_slave := 1\<rparr>) ! 1)
   \<and> fst (route_single_stmt example_env example_query example_read example_pending)
   \<and> query_queue (snd (route_single_stmt example_env example_query example_read example_pending))
       = [example_query]
   \<and> expected_responses (snd (route_single_stmt example_env example_query example_read example_pending))
       = 1"
proof -
  have h1: "\<not> TARGET_IS_ALL (info_target example_read)" by (simp add: example_read_def)
  have h3: "prepare_target example_env 1 (info_target example_read) (example_pending\<lparr>n_slave := 1\<rparr>)
       = (True, example_pending\<lparr>n_slave := 1\<rparr>)"
    by (simp add: prepare_target_def example_pending_def example_slave_def example_session_def)
  have h4: "have_session_commands (backends (example_pending\<lparr>n_slave := 1\<rparr>) ! 1)"
    by (simp add: have_session_commands_def example_pending_def example_slave_def example_session_def)
  have p: "ps_id_replaced example_env example_query example_read example_pending = example_query"
    by (simp add: ps_id_replaced_def example_env_def)
  have q: "query_queue example_pending = []" "expected_responses example_pending = 0"
    by (simp_all add: example_pending_def example_session_def)
  from C3_deferred [OF h1 example_pending_resolve h3 h4] h1 example_pending_resolve h3 h4 p q
  show ?thesis by simp
qed









































lemma example_refused_slave:
  "get_slave_backend example_env MAX_RLAG_UNDEFINED example_refused = Some 1"
  by (simp add: get_slave_backend_def example_refused_def example_session_def example_env_def
      example_master_def example_slave_def example_config_def rpl_lag_is_ok_def
      upt_rec [of 0] upt_rec [of "Suc 0"])

lemma example_refused_resolve:
  "resolve_target example_env example_query example_read example_refused
    = (True, Some 1, True, example_refused\<lparr>n_slave := 1\<rparr>)"
proof -
  have a: "get_max_replication_lag example_env s = MAX_RLAG_UNDEFINED" for s
    by (simp add: example_env_def)
  have b: "\<not> session_trx_is_read_only example_env" by (simp add: example_env_def)
  have c: "n_slave example_refused = 0" "retry_failed_reads (rses_config example_refused)"
     "\<not> large_query example_refused"
    by (simp_all add: example_refused_def example_session_def example_config_def)
  show ?thesis
    by (simp add: resolve_target_def handle_slave_is_target_def get_target_backend_def
        example_refused_slave a b c example_read_def Let_def MXS_COM_STMT_FETCH_def)
qed

lemma example_refused_prepare:
  "prepare_target example_env (Suc 0) (info_target example_read) (example_refused\<lparr>n_slave := n\<rparr>)
    = (True, log_msg LOG_ERROR
               ''Cannot reconnect to server, session command history is disabled.''
               (example_refused\<lparr>n_slave := n\<rparr>))"
  by (simp add: prepare_target_def example_refused_def example_session_def example_slave_def
      example_config_def example_read_def)

text \<open>
  The part of C5 that holds: a connection is attempted only while the history is enabled or
  no session command has completed.
\<close>

lemma prepare_target_connect:
  assumes "BackendConnect t \<in> set (trace (snd (prepare_target env t rt s)))"
    and "BackendConnect t \<notin> set (trace s)"
  shows "\<not> disable_sescmd_history (rses_config s) \<or> recv_sescmd s = 0"
  using assms
  by (auto simp: prepare_target_def Let_def emit_def log_msg_def split: if_splits)

text \<open>
  C5 at the failing input: the slave is not in use and can connect, the history is
  disabled and one session command has completed. \<open>prepare_target\<close> attempts no connection
  and logs the error, but returns true, and \<open>route_single_stmt\<close> goes on to write the
  statement to the backend that was never connected.
\<close>

theorem C5_failing_input:
  "fst (prepare_target example_env 1 (info_target example_read) example_refused)
   \<and> BackendConnect 1
       \<notin> set (trace (snd (prepare_target example_env 1 (info_target example_read) example_refused)))
   \<and> \<not> in_use (backends (snd (prepare_target example_env 1 (info_target example_read)
                                   example_refused)) ! 1)
   \<and> BackendWrite 1 example_query EXPECT_RESPONSE
       \<in> set (trace (snd (route_single_stmt example_env example_query example_read example_refused)))"
proof -
  have p: "prepare_target example_env (Suc 0) (info_target example_read) example_refused
    = (True, log_msg LOG_ERROR
               ''Cannot reconnect to server, session command history is disabled.''
               example_refused)"
    by (simp add: prepare_target_def example_refused_def example_session_def example_slave_def
      example_config_def example_read_def)
  have t: "trace example_refused = []" "backends example_refused ! Suc 0 = example_slave\<lparr>in_use := False\<rparr>"
    by (simp_all add: example_refused_def example_session_def)
  have q: "ps_id_replaced example_env example_query example_read example_refused = example_query"
    by (simp add: ps_id_replaced_def example_env_def)
  have e: "router_connection_keepalive example_env = 0" "write_result example_env 1"
    "\<not> locked_to_master example_env example_refused"
    by (simp_all add: example_env_def)
  have i: "\<not> TARGET_IS_ALL (info_target example_read)" "info_command example_read = 3"
    by (simp_all add: example_read_def)
  have g: "BackendWrite 1 example_query EXPECT_RESPONSE
       \<in> set (trace (snd (handle_got_target example_env example_query 1 True s)))" 
    if "load_data_state s = LOAD_DATA_INACTIVE" for s
    using that
    by (simp add: handle_got_target_def Let_def example_env_def example_query_def
        mxs_mysql_get_command_def MYSQL_HEADER_LEN_def MXS_COM_QUERY_def emit_def log_msg_def
        pin_target_node_def written_def unpin_target_node_def remember_target_def
        store_statement_def expect_reply_def is_large_query_def gwbuf_length_def
        GW_MYSQL_MAX_PACKET_LEN_def)
  have h: "\<not> have_session_commands (backends (log_msg LOG_ERROR
               ''Cannot reconnect to server, session command history is disabled.''
               (example_refused\<lparr>n_slave := 1\<rparr>)) ! 1)"
    by (simp add: have_session_commands_def log_msg_def example_refused_def example_session_def
        example_slave_def)
  have l: "load_data_state (log_msg LOG_ERROR
               ''Cannot reconnect to server, session command history is disabled.''
               (example_refused\<lparr>n_slave := 1\<rparr>)) = LOAD_DATA_INACTIVE"
    by (simp add: log_msg_def example_refused_def example_session_def)
  have w: "BackendWrite 1 example_query EXPECT_RESPONSE
       \<in> set (trace (snd (route_single_stmt example_env example_query example_read example_refused)))"
    using g [OF l] h
    by (simp add: route_single_stmt_def Let_def q example_refused_resolve dispatch_target_def
        example_refused_prepare e i MXS_COM_STMT_EXECUTE_def)
  from w show ?thesis by (simp add: p t log_msg_def example_slave_def)
qed

text \<open>
  C5 at the failing input, with the test of line 108: the history is disabled and a session
  command has completed, so the test fails, and yet \<open>prepare_target\<close> returns true.
\<close>

theorem C5_witness:
  "\<not> (\<not> disable_sescmd_history (rses_config example_refused) \<or> recv_sescmd example_refused = 0)
   \<and> \<not> in_use (backends example_refused ! 1) \<and> can_connect (backends example_refused ! 1)
   \<and> TARGET_IS_SLAVE (info_target example_read)
   \<and> fst (prepare_target example_env 1 (info_target example_read) example_refused)"
proof -
  have "disable_sescmd_history (rses_config example_refused)" "recv_sescmd example_refused = 1"
    "\<not> in_use (backends example_refused ! 1)" "can_connect (backends example_refused ! 1)"
    "TARGET_IS_SLAVE (info_target example_read)"
    by (simp_all add: example_refused_def example_session_def example_config_def
        example_slave_def example_read_def)
  with C5_failing_input show ?thesis by simp
qed

lemma writes_of_log_msg: "writes_of (log_msg l m s) = writes_of s"
  by (simp add: writes_of_def log_msg_def)

lemma large_state_log_msg: "large_state (log_msg l m s) = large_state s"
  by (simp add: large_state_def log_msg_def)

lemma writes_of_quiet: "quiet s s' \<Longrightarrow> writes_of s' = writes_of s"
  by (simp add: quiet_def writes_of_def)

lemma writes_of_written:
  "writes_of (written env querybuf target store response s) = writes_of s"
  by (simp add: written_def Let_def unpin_target_node_def remember_target_def expect_reply_def
      store_statement_def writes_of_def log_msg_def emit_def)

lemma large_state_written:
  "large_state (written env querybuf target store response s) =
     (if is_large_query querybuf then (True, Some target) else (False, None))"
  by (simp add: written_def Let_def unpin_target_node_def remember_target_def
      large_state_def log_msg_def)

lemma handle_got_target_writes:
  "\<exists>buf r. writes_of (snd (handle_got_target env querybuf target store s))
     = writes_of s @ [BackendWrite target buf r]"
  unfolding handle_got_target_def Let_def
  by (simp add: writes_of_written writes_of_log_msg)
     (simp add: writes_of_def emit_def log_msg_def pin_target_node_def)

lemma handle_got_target_large_state:
  "large_state (snd (handle_got_target env querybuf target store s)) =
     (if write_result env target
      then (if is_large_query querybuf then (True, Some target) else (False, None))
      else large_state s)"
  unfolding handle_got_target_def Let_def
  by (simp add: large_state_written large_state_log_msg)
     (simp add: large_state_def emit_def log_msg_def pin_target_node_def)

lemma handle_got_target_result:
  "fst (handle_got_target env querybuf target store s) = write_result env target"
  by (simp add: handle_got_target_def Let_def)

lemma large_state_prepare_target:
  "large_state (snd (prepare_target env target route_target s)) = large_state s"
  unfolding prepare_target_def Let_def
  by (simp add: large_state_log_msg) (simp add: large_state_def emit_def)

lemma large_state_keepalive:
  "large_state (handle_connection_keepalive env target s) = large_state s"
  by (simp add: handle_connection_keepalive_def Let_def large_state_def)

lemma dispatch_target_writes:
  "writes_of (snd (dispatch_target env q info nl t store s)) = writes_of s
   \<or> (\<exists>buf r. writes_of (snd (dispatch_target env q info nl t store s))
         = writes_of s @ [BackendWrite t buf r])"
proof -
  define p where "p = prepare_target env t (info_target info) s"
  have wp: "writes_of (snd p) = writes_of s"
    unfolding p_def using quiet_prepare_target by (rule writes_of_quiet)
  obtain buf r where g: "writes_of (snd (handle_got_target env q t store (snd p)))
     = writes_of s @ [BackendWrite t buf r]"
    using handle_got_target_writes [of env q t store "snd p"] wp by auto
  show ?thesis
    unfolding dispatch_target_def Let_def p_def [symmetric]
    using wp g by (auto simp: writes_of_log_msg) (auto simp: writes_of_def)
qed

lemma dispatch_target_large_state:
  assumes "large_state s = (True, Some t)" and "is_large_query q"
  shows "large_state (snd (dispatch_target env q info nl t store s)) = (True, Some t)"
proof -
  define p where "p = prepare_target env t (info_target info) s"
  have lp: "large_state (snd p) = (True, Some t)"
    unfolding p_def using assms(1) by (simp add: large_state_prepare_target)
  have g: "large_state (snd (handle_got_target env q t store (snd p))) = (True, Some t)"
    using lp assms(2) by (simp add: handle_got_target_large_state)
  show ?thesis
    unfolding dispatch_target_def Let_def p_def [symmetric]
    using lp g by (auto simp: large_state_log_msg) (auto simp: large_state_def)
qed

lemma resolve_target_large:
  "large_query s \<Longrightarrow> resolve_target env q info s = (True, prev_target s, False, s)"
  by (simp add: resolve_target_def)

lemma route_large_shape:
  assumes "large_query s" and "prev_target s = Some t" and "\<not> TARGET_IS_ALL (info_target info)"
  shows "snd (route_single_stmt env querybuf info s)
           = snd (dispatch_target env (ps_id_replaced env querybuf info s) info
                    (\<not> locked_to_master env s) t False s)
         \<or> snd (route_single_stmt env querybuf info s)
           = handle_connection_keepalive env (Some t)
               (snd (dispatch_target env (ps_id_replaced env querybuf info s) info
                    (\<not> locked_to_master env s) t False s))"
  using assms by (simp add: route_single_stmt_def Let_def resolve_target_large)

lemma route_large_writes:
  assumes "large_query s" and "prev_target s = Some t" and "\<not> TARGET_IS_ALL (info_target info)"
  shows "writes_of (snd (route_single_stmt env querybuf info s)) = writes_of s
   \<or> (\<exists>buf r. writes_of (snd (route_single_stmt env querybuf info s))
         = writes_of s @ [BackendWrite t buf r])"
  using route_large_shape [OF assms, of env querybuf]
    dispatch_target_writes [of env "ps_id_replaced env querybuf info s" info
      "\<not> locked_to_master env s" t False s]
    writes_of_quiet [OF quiet_handle_connection_keepalive]
  by metis

lemma route_large_state:
  assumes "large_query s" and "prev_target s = Some t" and "\<not> TARGET_IS_ALL (info_target info)"
    and "is_large_query (ps_id_replaced env querybuf info s)"
  shows "large_state (snd (route_single_stmt env querybuf info s)) = (True, Some t)"
proof -
  have "large_state s = (True, Some t)" using assms(1,2) by (simp add: large_state_def)
  from dispatch_target_large_state [OF this assms(4)] route_large_shape [OF assms(1-3), of env querybuf]
  show ?thesis by (auto simp: large_state_keepalive)
qed

lemma route_packets_large:
  assumes "large_query s" and "prev_target s = Some t"
    and "\<forall>p \<in> set ps. \<not> TARGET_IS_ALL (info_target (snd p)) \<and> is_large_query (fst p)"
    and "\<forall>buf ps_id. gwbuf_length (replace_binary_ps_id env buf ps_id) = gwbuf_length buf"
  shows "\<exists>ws. writes_of (route_packets env ps s) = writes_of s @ ws
           \<and> list_all (written_to t) ws
           \<and> large_query (route_packets env ps s)
           \<and> prev_target (route_packets env ps s) = Some t"
  using assms(1-3)
proof (induction ps arbitrary: s)
  case Nil
  then show ?case by simp
next
  case (Cons p ps)
  obtain querybuf info where p: "p = (querybuf, info)" by (cases p) auto
  let ?s' = "snd (route_single_stmt env querybuf info s)"
  have na: "\<not> TARGET_IS_ALL (info_target info)" and lg: "is_large_query querybuf"
    using Cons.prems(3) by (simp_all add: p)
  have lg': "is_large_query (ps_id_replaced env querybuf info s)"
    using lg assms(4) by (simp add: ps_id_replaced_def is_large_query_def)
  have st: "large_state ?s' = (True, Some t)"
    using Cons.prems(1,2) na lg' by (rule route_large_state)
  then have l': "large_query ?s'" and p': "prev_target ?s' = Some t"
    by (simp_all add: large_state_def)
  from route_large_writes [OF Cons.prems(1,2) na, of env querybuf]
  obtain w1 where w1: "writes_of ?s' = writes_of s @ w1" "list_all (written_to t) w1"
    by auto
  show ?case
  proof (cases "fst (route_single_stmt env querybuf info s)")
    case False
    then show ?thesis using w1 l' p' by (simp add: p)
  next
    case True
    have "\<forall>p \<in> set ps. \<not> TARGET_IS_ALL (info_target (snd p)) \<and> is_large_query (fst p)"
      using Cons.prems(3) by simp
    from Cons.IH [OF l' p' this]
    obtain w2 where w2: "writes_of (route_packets env ps ?s') = writes_of ?s' @ w2"
      "list_all (written_to t) w2" "large_query (route_packets env ps ?s')"
      "prev_target (route_packets env ps ?s') = Some t"
      by auto
    have "writes_of (route_packets env (p # ps) s) = writes_of s @ (w1 @ w2)"
      using True w1(1) w2(1) by (simp add: p)
    moreover have "list_all (written_to t) (w1 @ w2)" using w1(2) w2(2) by simp
    ultimately show ?thesis using True w2(3,4) by (auto simp: p)
  qed
qed

text \<open>
  C6, as amended. A successful write of a packet of the maximum wire length sets the
  large-query flag and remembers the target; a successful write of a shorter packet clears
  both. While the flag is set, a packet whose route target is not ALL is routed to the
  remembered backend and to no other: whatever the call writes to a backend, it writes
  to that one. So in a run of maximum-length packets, none of them for all servers, every
  packet written goes to the remembered backend, and the flag and the backend stay.
\<close>

theorem C6_large_query:
  "(write_result env target \<longrightarrow>
      fst (handle_got_target env querybuf target store s)
      \<and> large_query (snd (handle_got_target env querybuf target store s))
          = is_large_query querybuf
      \<and> prev_target (snd (handle_got_target env querybuf target store s))
          = (if is_large_query querybuf then Some target else None))
   \<and> (large_query s \<and> prev_target s = Some t \<and> \<not> TARGET_IS_ALL (info_target info) \<longrightarrow>
        writes_of (snd (route_single_stmt env querybuf info s)) = writes_of s
        \<or> (\<exists>buf r. writes_of (snd (route_single_stmt env querybuf info s))
              = writes_of s @ [BackendWrite t buf r]))
   \<and> (large_query s \<and> prev_target s = Some t
        \<and> (\<forall>p \<in> set ps. \<not> TARGET_IS_ALL (info_target (snd p)) \<and> is_large_query (fst p))
        \<and> (\<forall>buf ps_id. gwbuf_length (replace_binary_ps_id env buf ps_id) = gwbuf_length buf)
        \<longrightarrow> (\<exists>ws. writes_of (route_packets env ps s) = writes_of s @ ws
                  \<and> list_all (written_to t) ws
                  \<and> large_query (route_packets env ps s)
                  \<and> prev_target (route_packets env ps s) = Some t))"
proof -
  have a: "write_result env target \<longrightarrow>
      fst (handle_got_target env querybuf target store s)
      \<and> large_query (snd (handle_got_target env querybuf target store s))
          = is_large_query querybuf
      \<and> prev_target (snd (handle_got_target env querybuf target store s))
          = (if is_large_query querybuf then Some target else None)"
    using handle_got_target_large_state [of env querybuf target store s]
    by (auto simp: handle_got_target_result large_state_def split: if_splits)
  have b: "large_query s \<and> prev_target s = Some t \<and> \<not> TARGET_IS_ALL (info_target info) \<longrightarrow>
        writes_of (snd (route_single_stmt env querybuf info s)) = writes_of s
        \<or> (\<exists>buf r. writes_of (snd (route_single_stmt env querybuf info s))
              = writes_of s @ [BackendWrite t buf r])"
    using route_large_writes [of s t info env querybuf] by blast
  have c: "large_query s \<and> prev_target s = Some t
        \<and> (\<forall>p \<in> set ps. \<not> TARGET_IS_ALL (info_target (snd p)) \<and> is_large_query (fst p))
        \<and> (\<forall>buf ps_id. gwbuf_length (replace_binary_ps_id env buf ps_id) = gwbuf_length buf)
        \<longrightarrow> (\<exists>ws. writes_of (route_packets env ps s) = writes_of s @ ws
                  \<and> list_all (written_to t) ws
                  \<and> large_query (route_packets env ps s)
                  \<and> prev_target (route_packets env ps s) = Some t)"
    using route_packets_large [of s t ps env] by blast
  from a b c show ?thesis by (intro conjI)
qed

lemma example_big_large: "is_large_query example_big"
  by (simp add: is_large_query_def gwbuf_length_def example_big_def MYSQL_HEADER_LEN_def
      GW_MYSQL_MAX_PACKET_LEN_def)

text \<open>
  C6 at the concrete session: two further maximum-length packets of the large query keep
  the flag and the remembered slave.
\<close>

theorem C6_witness:
  "write_result example_env 1
   \<and> large_query example_large \<and> prev_target example_large = Some 1
   \<and> \<not> TARGET_IS_ALL (info_target example_read)
   \<and> is_large_query example_big
   \<and> fst (handle_got_target example_env example_big 1 False example_session)
   \<and> large_query (route_packets example_env
        [(example_big, example_read), (example_big, example_read)] example_large)
   \<and> prev_target (route_packets example_env
        [(example_big, example_read), (example_big, example_read)] example_large) = Some 1"
proof -
  have h1: "write_result example_env 1" by (simp add: example_env_def)
  have h2: "large_query example_large" "prev_target example_large = Some 1"
    by (simp_all add: example_large_def)
  have h3: "\<not> TARGET_IS_ALL (info_target example_read)" by (simp add: example_read_def)
  have h4: "\<forall>p \<in> set [(example_big, example_read), (example_big, example_read)].
         \<not> TARGET_IS_ALL (info_target (snd p)) \<and> is_large_query (fst p)"
    using h3 example_big_large by simp
  have h5: "\<forall>buf ps_id. gwbuf_length (replace_binary_ps_id example_env buf ps_id) = gwbuf_length buf"
    by (simp add: example_env_def)
  from C6_large_query [where env = example_env and target = 1 and querybuf = example_big
      and store = False and s = example_large and t = 1 and info = example_read
      and ps = "[(example_big, example_read), (example_big, example_read)]"]
    h1 h2 h3 h4 h5
  have c: "large_query (route_packets example_env
        [(example_big, example_read), (example_big, example_read)] example_large)
   \<and> prev_target (route_packets example_env
        [(example_big, example_read), (example_big, example_read)] example_large) = Some 1"
    by blast
  from C6_large_query [where env = example_env and target = 1 and querybuf = example_big
      and store = False and s = example_session] h1
  have d: "fst (handle_got_target example_env example_big 1 False example_session)" by blast
  from h1 h2 h3 example_big_large c d show ?thesis by blast
qed

text \<open>
  C6 as stated fails when the continuation packet is classified for all servers: the test
  for ALL comes first, so with the flag set and the slave remembered, the packet enters
  the session-command queue of the master as well.
\<close>

theorem C6_counterexample:
  "large_query example_large \<and> prev_target example_large = Some 1
   \<and> is_large_query example_big
   \<and> session_commands
        (backends (snd (route_single_stmt example_env_all example_big example_all example_large)) ! 0)
       = [new_SessionCommand example_big 1]
   \<and> session_commands
        (backends (snd (route_single_stmt example_env_all example_big example_all example_large)) ! 1)
       = [new_SessionCommand example_big 1]"
proof -
  have h: "large_query example_large" "prev_target example_large = Some 1"
    by (simp_all add: example_large_def)
  have q: "ps_id_replaced example_env_all example_big example_all example_large = example_big"
    by (simp add: ps_id_replaced_def example_env_all_def example_env_def)
  have i: "TARGET_IS_ALL (info_target example_all)" "info_command example_all = 3"
    "info_type example_all = 0"
    by (simp_all add: example_all_def)
  have k: "router_connection_keepalive example_env_all = 0"
    "handle_target_is_all example_env_all =
       (\<lambda>route_target querybuf command qtype s.
          route_session_write example_env querybuf command qtype s)"
    by (simp_all add: example_env_all_def example_env_def)
  have e: "snd (route_single_stmt example_env_all example_big example_all example_large)
      = snd (route_session_write example_env example_big 3 0 example_large)"
    by (simp add: route_single_stmt_def Let_def q i k)
  have c: "created_sescmd example_env example_big 0 example_large = new_SessionCommand example_big 1"
    by (simp add: created_sescmd_def example_env_def example_large_def example_session_def)
  have b: "backends example_large = [example_master, example_slave]"
    by (simp add: example_large_def example_session_def)
  have x: "execute_session_command example_env j bk = (True, bk)" for j bk
    by (simp add: example_env_def)
  have len: "0 < length (backends example_large)" "1 < length (backends example_large)"
    by (simp_all add: b)
  have n0: "backends (snd (route_session_write example_env example_big 3 0 example_large)) ! 0
      = (if in_use (backends example_large ! 0)
         then snd (execute_session_command example_env (0 + 0)
                (append_session_command (backends example_large ! 0)
                   (created_sescmd example_env example_big 0 example_large)))
         else backends example_large ! 0)"
    unfolding rsw_backends using len(1) by (rule loop_nth)
  have n1: "backends (snd (route_session_write example_env example_big 3 0 example_large)) ! 1
      = (if in_use (backends example_large ! 1)
         then snd (execute_session_command example_env (0 + 1)
                (append_session_command (backends example_large ! 1)
                   (created_sescmd example_env example_big 0 example_large)))
         else backends example_large ! 1)"
    unfolding rsw_backends using len(2) by (rule loop_nth)
  have 0: "session_commands (backends (snd (route_session_write example_env example_big 3 0 example_large)) ! 0)
       = [new_SessionCommand example_big 1]"
    unfolding n0 by (simp add: b c x append_session_command_def example_master_def)
  have 1: "session_commands (backends (snd (route_session_write example_env example_big 3 0 example_large)) ! 1)
       = [new_SessionCommand example_big 1]"
    unfolding n1 by (simp add: b c x append_session_command_def example_slave_def)
  from h example_big_large 0 1 show ?thesis by (simp add: e)
qed





lemma exec_map_written:
  "exec_map (written env querybuf target store response s) = exec_map s"
  by (simp add: written_def Let_def unpin_target_node_def remember_target_def expect_reply_def
      store_statement_def log_msg_def emit_def)

lemma exec_map_handle_got_target:
  "exec_map (snd (handle_got_target env querybuf target store s)) = exec_map s"
  unfolding handle_got_target_def Let_def
  by (simp add: exec_map_written) (simp add: log_msg_def emit_def pin_target_node_def)











































end
